theory Spec2Isabelle
  imports Complex_Main "HOL-Library.AList"
begin

section \<open>Conventions of the embedding\<close>

text \<open>
  The Python sources under \<^verbatim>\<open>src/core\<close> and \<^verbatim>\<open>src/bot\<close> are embedded as follows.
  \<^item> A Python \<^verbatim>\<open>float\<close> is a \<^typ>\<open>real\<close>; there is no NaN, no infinity, no overflow and
    no subnormal number. The liquidation price, on which the stop-loss gate of
    \<open>open_position\<close> branches and which the specification states to the last digit, is
    computed as Python computes it: every operation of \<open>calculate_liquidation_price\<close>
    is rounded to the nearest binary64 number (\<open>f64\<close>). The other arithmetic (PnL,
    capital, scores) is exact. Float division by zero raises in Python, so every division
    of the source is guarded and yields \<open>ZeroDivisionError\<close>.
  \<^item> A Python \<^verbatim>\<open>int\<close> is an \<^typ>\<open>int\<close>, a \<^verbatim>\<open>str\<close> a \<^typ>\<open>string\<close>.
  \<^item> A \<^verbatim>\<open>dict\<close> is an association list in insertion order: \<open>d[k] = v\<close> is
    \<^const>\<open>AList.update\<close> (in place when the key exists, appended otherwise),
    \<open>del d[k]\<close> is \<^const>\<open>AList.delete\<close>, \<open>k in d\<close> is membership in the keys.
  \<^item> \<^verbatim>\<open>datetime.now()\<close> is a parameter \<open>now\<close>, in microseconds.
  \<^item> An object mutated in place is passed in and returned updated; a function that can
    raise returns the state it reached together with \<open>Inl\<close> of the exception.
  \<^item> Logging and the calls to the database manager (whose failure \<open>close_position\<close>
    swallows) do not touch the state and are left out.
\<close>

datatype py_error = ZeroDivisionError | KeyError | ValueError | ExchangeError

definition dict_contains :: "'k \<Rightarrow> ('k \<times> 'v) list \<Rightarrow> bool" where
  "dict_contains k d = (k \<in> set (map fst d))"

section \<open>Binary64 rounding\<close>

text \<open>
  Python evaluates \<^verbatim>\<open>a op b\<close> on floats as the exact result rounded to the nearest
  number with a 53-bit significand, ties to even. \<open>bit_length n\<close> is the number of binary
  digits of a positive integer, as \<^verbatim>\<open>int.bit_length\<close>.
\<close>

function bit_length :: "int \<Rightarrow> int" where
  "bit_length n = (if n \<le> 0 then 0 else 1 + bit_length (n div 2))"
  by pat_completeness auto
termination
  by (relation "measure nat") auto

declare bit_length.simps [simp del]

text \<open>\<open>pow2 e\<close> is \<open>2\<close> to the power \<open>e\<close>, for an integer \<open>e\<close> of either sign.\<close>

definition pow2 :: "int \<Rightarrow> real" where
  "pow2 e = (if e \<ge> 0 then 2 ^ nat e else 1 / 2 ^ nat (- e))"

text \<open>
  The binary exponent of a positive number \<open>a\<close>: the \<open>e\<close> with
  \<open>pow2 e \<le> a < pow2 (e + 1)\<close>. For \<open>a \<ge> 1\<close> it is read off the integer part of
  \<open>a\<close>; below 1, off the integer part of \<open>1 / a\<close>, where \<open>k\<close> is the binary exponent
  of that integer part and an exact power of two is the only case with exponent \<open>- k\<close>.
\<close>

definition negative_exponent :: "real \<Rightarrow> int \<Rightarrow> int" where
  "negative_exponent a k = (if a * pow2 k = 1 then - k else - k - 1)"

definition binary_exponent :: "real \<Rightarrow> int" where
  "binary_exponent a =
     (if a \<ge> 1 then bit_length \<lfloor>a\<rfloor> - 1
      else negative_exponent a (bit_length \<lfloor>1 / a\<rfloor> - 1))"

text \<open>Rounding to the nearest integer, ties to the even one.\<close>

definition nearest_even :: "int \<Rightarrow> real \<Rightarrow> int" where
  "nearest_even f r =
     (if r < 1 / 2 then f else if r > 1 / 2 then f + 1 else if even f then f else f + 1)"

definition round_half_even :: "real \<Rightarrow> int" where
  "round_half_even y = nearest_even \<lfloor>y\<rfloor> (y - of_int \<lfloor>y\<rfloor>)"

text \<open>
  \<open>f64 x\<close> is the multiple of the unit in the last place of \<open>x\<close> (\<open>2\<close> to the binary
  exponent of \<open>x\<close> less 52) that is nearest to \<open>x\<close>, ties to even: the binary64 number
  nearest to \<open>x\<close>.
\<close>

definition round_to_unit :: "real \<Rightarrow> real \<Rightarrow> real" where
  "round_to_unit u a = of_int (round_half_even (a / u)) * u"

definition f64 :: "real \<Rightarrow> real" where
  "f64 x =
     (if x = 0 then 0
      else sgn x * round_to_unit (pow2 (binary_exponent \<bar>x\<bar> - 52)) \<bar>x\<bar>)"

section \<open>src/core/risk\_manager.py\<close>

record position =
  symbol :: string
  side :: string
  entry_price :: real
  quantity :: real
  leverage :: int
  stop_loss :: "real option"
  take_profit :: "real option"
  unrealized_pnl :: real
  liquidation_price :: "real option"
  entry_time :: int
  strategy :: string
  sl_order_id :: "string option"
  tp_order_id :: "string option"

record trade =
  trade_symbol :: string
  trade_side :: string
  trade_entry_price :: real
  exit_price :: real
  trade_quantity :: real
  trade_leverage :: int
  pnl :: real
  pnl_percentage :: real
  trade_entry_time :: int
  exit_time :: int
  trade_strategy :: string

record risk_manager =
  initial_capital :: real
  current_capital :: real
  max_leverage :: int
  risk_per_trade :: real
  max_daily_loss :: real
  max_open_positions :: int
  min_risk_reward :: real
  positions :: "(string \<times> position) list"
  trades :: "trade list"
  daily_pnl :: real
  daily_trades :: int
  last_reset :: int

text \<open>\<^verbatim>\<open>RiskManager.__init__\<close>\<close>

definition RiskManager_init ::
  "int \<Rightarrow> real \<Rightarrow> int \<Rightarrow> real \<Rightarrow> real \<Rightarrow> int \<Rightarrow> real \<Rightarrow> risk_manager" where
  "RiskManager_init now initial_capital' max_leverage' risk_per_trade' max_daily_loss'
      max_open_positions' min_risk_reward' =
     \<lparr>initial_capital = initial_capital', current_capital = initial_capital',
      max_leverage = max_leverage', risk_per_trade = risk_per_trade',
      max_daily_loss = max_daily_loss', max_open_positions = max_open_positions',
      min_risk_reward = min_risk_reward', positions = [], trades = [],
      daily_pnl = 0, daily_trades = 0, last_reset = now\<rparr>"

text \<open>\<^verbatim>\<open>timedelta(days=1)\<close> in microseconds.\<close>

definition one_day :: int where
  "one_day = 86400000000"

definition reset_daily_stats :: "risk_manager \<Rightarrow> int \<Rightarrow> risk_manager" where
  "reset_daily_stats rm now =
     (if now - last_reset rm > one_day
      then rm\<lparr>daily_pnl := 0, daily_trades := 0, last_reset := now\<rparr>
      else rm)"

definition can_open_position :: "risk_manager \<Rightarrow> int \<Rightarrow> string \<Rightarrow> risk_manager \<times> bool" where
  "can_open_position rm now symb =
     (let rm1 = reset_daily_stats rm now in
      if daily_pnl rm1 < - (initial_capital rm1 * max_daily_loss rm1) then (rm1, False)
      else if int (length (positions rm1)) \<ge> max_open_positions rm1 then (rm1, False)
      else if dict_contains symb (positions rm1) then (rm1, False)
      else if current_capital rm1 \<le> initial_capital rm1 * 0.5 then (rm1, False)
      else (rm1, True))"

text \<open>
  \<^verbatim>\<open>entry_price * (1 - (1/leverage) + maintenance_margin_rate)\<close> associates to the left;
  \<^verbatim>\<open>1/leverage\<close> divides two integers and is the quotient rounded once.
\<close>

definition calculate_liquidation_price :: "real \<Rightarrow> int \<Rightarrow> string \<Rightarrow> real \<Rightarrow> py_error + real" where
  "calculate_liquidation_price entry_price' leverage' side' maintenance_margin_rate =
     (if side' = ''LONG''
      then (if leverage' = 0 then Inl ZeroDivisionError
            else Inr (f64 (entry_price' *
                       f64 (f64 (1 - f64 (1 / real_of_int leverage'))
                            + maintenance_margin_rate))))
      else (if leverage' = 0 then Inl ZeroDivisionError
            else Inr (f64 (entry_price' *
                       f64 (f64 (1 + f64 (1 / real_of_int leverage'))
                            - maintenance_margin_rate)))))"

text \<open>
  The default \<^verbatim>\<open>maintenance_margin_rate=0.005\<close>, which \<open>open_position\<close> relies on: the
  float that the literal denotes.
\<close>

definition default_maintenance_margin_rate :: real where
  "default_maintenance_margin_rate = f64 0.005"

definition open_position ::
  "risk_manager \<Rightarrow> int \<Rightarrow> string \<Rightarrow> string \<Rightarrow> real \<Rightarrow> real \<Rightarrow> int \<Rightarrow> real \<Rightarrow> real option \<Rightarrow> string
     \<Rightarrow> risk_manager \<times> (py_error + position option)" where
  "open_position rm now symb side' entry_price' quantity' leverage' stop_loss' take_profit' strategy' =
     (case can_open_position rm now symb of
        (rm1, False) \<Rightarrow> (rm1, Inr None)
      | (rm1, True) \<Rightarrow>
          (case calculate_liquidation_price entry_price' leverage' side'
                  default_maintenance_margin_rate of
             Inl e \<Rightarrow> (rm1, Inl e)
           | Inr liq \<Rightarrow>
               if side' = ''LONG'' \<and> stop_loss' \<le> liq then (rm1, Inr None)
               else if side' \<noteq> ''LONG'' \<and> stop_loss' \<ge> liq then (rm1, Inr None)
               else
                 (let p = \<lparr>symbol = symb, side = side', entry_price = entry_price',
                           quantity = quantity', leverage = leverage',
                           stop_loss = Some stop_loss', take_profit = take_profit',
                           unrealized_pnl = 0, liquidation_price = Some liq,
                           entry_time = now, strategy = strategy',
                           sl_order_id = None, tp_order_id = None\<rparr>
                  in (rm1\<lparr>positions := AList.update symb p (positions rm1),
                           daily_trades := daily_trades rm1 + 1\<rparr>,
                      Inr (Some p)))))"

definition close_position ::
  "risk_manager \<Rightarrow> int \<Rightarrow> string \<Rightarrow> real \<Rightarrow> string \<Rightarrow> real option
     \<Rightarrow> risk_manager \<times> (py_error + trade option)" where
  "close_position rm now symb exit_price' strategy' realized_pnl =
     (case map_of (positions rm) symb of
        None \<Rightarrow> (rm, Inr None)
      | Some p \<Rightarrow>
          (case (case realized_pnl of
                   Some r \<Rightarrow>
                     if entry_price p * quantity p = 0 then Inl ZeroDivisionError
                     else Inr (r, (r / (entry_price p * quantity p)) * 100)
                 | None \<Rightarrow>
                     (let pnl_per_unit = (if side p = ''LONG'' then exit_price' - entry_price p
                                          else entry_price p - exit_price')
                      in if entry_price p = 0 then Inl ZeroDivisionError
                         else Inr (pnl_per_unit * quantity p,
                                   (pnl_per_unit / entry_price p) * 100))) of
             Inl e \<Rightarrow> (rm, Inl e)
           | Inr (pnl', pnl_percentage') \<Rightarrow>
               (let t = \<lparr>trade_symbol = symb, trade_side = side p,
                         trade_entry_price = entry_price p, exit_price = exit_price',
                         trade_quantity = quantity p, trade_leverage = leverage p,
                         pnl = pnl', pnl_percentage = pnl_percentage',
                         trade_entry_time = entry_time p, exit_time = now,
                         trade_strategy = strategy'\<rparr>
                in (rm\<lparr>current_capital := current_capital rm + pnl',
                        daily_pnl := daily_pnl rm + pnl',
                        trades := trades rm @ [t],
                        positions := AList.delete symb (positions rm)\<rparr>,
                    Inr (Some t)))))"

definition update_position :: "risk_manager \<Rightarrow> string \<Rightarrow> real \<Rightarrow> risk_manager" where
  "update_position rm symb current_price =
     (case map_of (positions rm) symb of
        None \<Rightarrow> rm
      | Some p \<Rightarrow>
          (let pnl_per_unit = (if side p = ''LONG'' then current_price - entry_price p
                               else entry_price p - current_price)
           in rm\<lparr>positions :=
                    AList.update symb (p\<lparr>unrealized_pnl := pnl_per_unit * quantity p\<rparr>)
                      (positions rm)\<rparr>))"


subsection \<open>Reachable ledgers\<close>

text \<open>
  The ledger states that \<open>open_position\<close>, \<open>update_position\<close> and \<open>close_position\<close>
  can produce from a freshly constructed \<open>RiskManager\<close>, with any arguments and at any
  times.
\<close>

inductive reachable :: "risk_manager \<Rightarrow> bool" where
  reachable_init:
    "reachable (RiskManager_init now ic ml rpt mdl mop mrr)"
| reachable_open:
    "reachable rm \<Longrightarrow>
     reachable (fst (open_position rm now symb sd ep q lev sl tp strat))"
| reachable_update:
    "reachable rm \<Longrightarrow> reachable (update_position rm symb price)"
| reachable_close:
    "reachable rm \<Longrightarrow> reachable (fst (close_position rm now symb xp strat rp))"

text \<open>
  The number of positions stored in the ledger that carry a given symbol, and the
  well-formedness of the dictionary: keys are pairwise different and every position is
  stored under its own symbol.
\<close>

definition positions_for :: "risk_manager \<Rightarrow> string \<Rightarrow> nat" where
  "positions_for rm symb = length (filter (\<lambda>p. symbol p = symb) (map snd (positions rm)))"

definition ledger_wf :: "risk_manager \<Rightarrow> bool" where
  "ledger_wf rm =
     (distinct (map fst (positions rm)) \<and>
      list_all (\<lambda>kp. symbol (snd kp) = fst kp) (positions rm))"

text \<open>Well-formed, and no stored position has leverage 0.\<close>

definition ledger_inv :: "risk_manager \<Rightarrow> bool" where
  "ledger_inv rm = (ledger_wf rm \<and> list_all (\<lambda>kp. leverage (snd kp) \<noteq> 0) (positions rm))"

section \<open>src/bot/trading\_bot.py: \<open>check_positions\<close>\<close>

text \<open>
  What the exchange reports: an entry of \<^verbatim>\<open>get_position_info()\<close> (\<open>mark_price\<close> is
  \<open>None\<close> when the key \<^verbatim>\<open>markPrice\<close> is missing) and an entry of the user-trades
  endpoint. A call that raises is \<open>Inl\<close>.
\<close>

record exchange_position =
  ex_symbol :: string
  position_amt :: real
  mark_price :: "real option"

record account_trade =
  fill_price :: "real option"
  fill_realized_pnl :: "real option"

definition active_on_aster :: "exchange_position list \<Rightarrow> string list" where
  "active_on_aster aster_positions =
     map ex_symbol (filter (\<lambda>pos. position_amt pos \<noteq> 0) aster_positions)"

definition closed_positions :: "risk_manager \<Rightarrow> exchange_position list \<Rightarrow> string list" where
  "closed_positions rm aster_positions =
     filter (\<lambda>symb. symb \<notin> set (active_on_aster aster_positions)) (map fst (positions rm))"

text \<open>Python truthiness of an optional order id: neither \<open>None\<close> nor the empty string.\<close>

definition truthy_id :: "string option \<Rightarrow> bool" where
  "truthy_id oid = (case oid of None \<Rightarrow> False | Some s \<Rightarrow> s \<noteq> [])"

text \<open>The cancel requests sent for one position (none in dry-run mode).\<close>

definition cancel_requests :: "bool \<Rightarrow> string \<Rightarrow> position \<Rightarrow> (string \<times> string) list" where
  "cancel_requests dry_run symb p =
     (if truthy_id (sl_order_id p) \<and> \<not> dry_run then [(symb, the (sl_order_id p))] else []) @
     (if truthy_id (tp_order_id p) \<and> \<not> dry_run then [(symb, the (tp_order_id p))] else [])"

text \<open>
  The body of the second loop for one symbol. \<^verbatim>\<open>positions[symbol]\<close> is read outside the
  inner \<^verbatim>\<open>try\<close>, so a missing key leaves the function through the outer handler
  (\<open>Inl\<close>); everything raised later is caught and the position is dropped.
\<close>

definition reconcile_closed ::
  "risk_manager \<Rightarrow> int \<Rightarrow> (string \<Rightarrow> py_error + account_trade list) \<Rightarrow> string
     \<Rightarrow> py_error + risk_manager" where
  "reconcile_closed rm now user_trades symb =
     (case map_of (positions rm) symb of
        None \<Rightarrow> Inl KeyError
      | Some p \<Rightarrow>
          (case user_trades symb of
             Inl e \<Rightarrow> Inr (rm\<lparr>positions := AList.delete symb (positions rm)\<rparr>)
           | Inr [] \<Rightarrow> Inr (rm\<lparr>positions := AList.delete symb (positions rm)\<rparr>)
           | Inr (t0 # ts) \<Rightarrow>
               (let exit_price' = (case fill_price t0 of Some x \<Rightarrow> x | None \<Rightarrow> entry_price p);
                    total_realized_pnl =
                      sum_list (map (\<lambda>t. case fill_realized_pnl t of Some x \<Rightarrow> x | None \<Rightarrow> 0)
                                  (t0 # ts))
                in case close_position rm now symb exit_price' (strategy p)
                          (Some total_realized_pnl) of
                     (rm1, Inl e) \<Rightarrow>
                       Inr (rm1\<lparr>positions := AList.delete symb (positions rm1)\<rparr>)
                   | (rm1, Inr r) \<Rightarrow> Inr rm1)))"

fun reconcile_all ::
  "risk_manager \<Rightarrow> int \<Rightarrow> (string \<Rightarrow> py_error + account_trade list) \<Rightarrow> string list
     \<Rightarrow> risk_manager \<times> py_error option" where
  "reconcile_all rm now user_trades [] = (rm, None)"
| "reconcile_all rm now user_trades (symb # rest) =
     (case reconcile_closed rm now user_trades symb of
        Inl e \<Rightarrow> (rm, Some e)
      | Inr rm1 \<Rightarrow> reconcile_all rm1 now user_trades rest)"

text \<open>The third loop: mark prices of the positions still open.\<close>

fun update_marks :: "risk_manager \<Rightarrow> exchange_position list \<Rightarrow> risk_manager \<times> py_error option" where
  "update_marks rm [] = (rm, None)"
| "update_marks rm (pos # rest) =
     (if position_amt pos = 0 then update_marks rm rest
      else (case mark_price pos of
              None \<Rightarrow> (rm, Some KeyError)
            | Some current_price \<Rightarrow>
                update_marks
                  (if dict_contains (ex_symbol pos) (positions rm)
                   then update_position rm (ex_symbol pos) current_price else rm)
                  rest))"

text \<open>
  \<open>check_positions\<close> returns the ledger, the symbols it found closed on the exchange and
  the cancel requests it sent. The outer \<^verbatim>\<open>except\<close> ends the function where an exception
  escapes, keeping the ledger as it is at that point.
\<close>

definition check_positions ::
  "risk_manager \<Rightarrow> int \<Rightarrow> py_error + exchange_position list
     \<Rightarrow> (string \<Rightarrow> py_error + account_trade list) \<Rightarrow> bool
     \<Rightarrow> risk_manager \<times> string list \<times> (string \<times> string) list" where
  "check_positions rm now position_info user_trades dry_run =
     (case position_info of
        Inl e \<Rightarrow> (rm, [], [])
      | Inr aster_positions \<Rightarrow>
          (let closed = closed_positions rm aster_positions;
               cancels = concat (map (\<lambda>symb. case map_of (positions rm) symb of
                                               None \<Rightarrow> []
                                             | Some p \<Rightarrow> cancel_requests dry_run symb p) closed)
           in case reconcile_all rm now user_trades closed of
                (rm1, Some e) \<Rightarrow> (rm1, closed, cancels)
              | (rm1, None) \<Rightarrow> (fst (update_marks rm1 aster_positions), closed, cancels)))"


section \<open>src/core/market\_regime.py\<close>

datatype market_regime =
  HIGH_VOLATILITY_TRENDING | LOW_VOLATILITY_RANGING | MOMENTUM_EXHAUSTION | MIXED | UNKNOWN

record regime_signals =
  volatility :: real
  trend_strength :: real
  volume_trend :: real
  orderbook_imbalance :: real
  funding_rate :: real
  funding_trend :: real
  rsi :: real
  price_momentum :: real
  liquidity_score :: real
  regime_persistence :: real

record market_regime_detector =
  current_regime :: market_regime
  regime_confidence :: real
  regime_history :: "(int \<times> market_regime \<times> real) list"
  regime_start_time :: "int option"
  volatility_high :: real
  volatility_low :: real
  trend_strong :: real
  momentum_extreme_rsi :: "real \<times> real"

definition MarketRegimeDetector_init :: market_regime_detector where
  "MarketRegimeDetector_init =
     \<lparr>current_regime = UNKNOWN, regime_confidence = 0, regime_history = [],
      regime_start_time = None, volatility_high = 0.03, volatility_low = 0.015,
      trend_strong = 40, momentum_extreme_rsi = (25, 75)\<rparr>"

text \<open>The Python slice \<^verbatim>\<open>xs[-n:]\<close> for \<open>n > 0\<close>.\<close>

definition last_n :: "nat \<Rightarrow> 'a list \<Rightarrow> 'a list" where
  "last_n n xs = drop (length xs - n) xs"

text \<open>
  \<^verbatim>\<open>max(items, key=f)\<close> on a non-empty sequence \<open>x, xs\<close>: the first element whose key
  is maximal.
\<close>

fun max_by_key :: "('a \<Rightarrow> real) \<Rightarrow> 'a \<Rightarrow> 'a list \<Rightarrow> 'a" where
  "max_by_key f best [] = best"
| "max_by_key f best (x # xs) = max_by_key f (if f x > f best then x else best) xs"

text \<open>The three accumulated scores of \<open>detect_regime\<close>; \<open>MIXED\<close> keeps its baseline.\<close>

definition score_high_vol_trending :: "market_regime_detector \<Rightarrow> regime_signals \<Rightarrow> real" where
  "score_high_vol_trending det signals =
     0 + (if volatility signals > volatility_high det then 3.0 else 0)
       + (if trend_strength signals > trend_strong det then 2.5 else 0)
       + (if \<bar>price_momentum signals\<bar> > 0.5 then 2.0 else 0)
       + (if volume_trend signals > 0.3 then 1.5 else 0)"

definition score_low_vol_ranging :: "market_regime_detector \<Rightarrow> regime_signals \<Rightarrow> real" where
  "score_low_vol_ranging det signals =
     0 + (if volatility signals < volatility_low det then 3.0 else 0)
       + (if trend_strength signals < 25 then 2.5 else 0)
       + (if \<bar>price_momentum signals\<bar> < 0.2 then 2.0 else 0)
       + (if \<bar>funding_rate signals\<bar> > 0.001 then 1.5 else 0)
       + (if liquidity_score signals > 0.7 then 1.0 else 0)"

definition score_momentum_exhaustion :: "market_regime_detector \<Rightarrow> regime_signals \<Rightarrow> real" where
  "score_momentum_exhaustion det signals =
     0 + (if rsi signals < fst (momentum_extreme_rsi det)
             \<or> rsi signals > snd (momentum_extreme_rsi det) then 3.0 else 0)
       + (if \<bar>price_momentum signals\<bar> > 0.4 \<and> volume_trend signals < - 0.2 then 2.5 else 0)
       + (if \<bar>funding_rate signals\<bar> > 0.002 then 2.0 else 0)
       + (if \<bar>orderbook_imbalance signals\<bar> > 0.6 then 1.5 else 0)"

definition score_mixed :: real where
  "score_mixed = 0.5"

definition detect_regime ::
  "market_regime_detector \<Rightarrow> regime_signals \<Rightarrow> market_regime \<times> real" where
  "detect_regime det signals =
     (let hvt = score_high_vol_trending det signals;
          lvr = score_low_vol_ranging det signals;
          mex = score_momentum_exhaustion det signals;
          best_regime = max_by_key snd (HIGH_VOLATILITY_TRENDING, hvt)
                          [(LOW_VOLATILITY_RANGING, lvr), (MOMENTUM_EXHAUSTION, mex),
                           (MIXED, score_mixed)];
          regime = fst best_regime;
          total_score = hvt + lvr + mex + score_mixed;
          confidence = (if total_score > 0 then snd best_regime / total_score else 0.5)
      in if regime = current_regime det \<and> regime_persistence signals > 0.6
         then (regime, min 1.0 (confidence * 1.1))
         else (regime, confidence))"

text \<open>
  \<open>extract_signals\<close>: the nine market features are computed by pandas code from price,
  book and funding data and enter here as \<open>market\<close>; the persistence feature is computed
  from the detector's own history as the source does.
\<close>

definition extract_signals :: "market_regime_detector \<Rightarrow> regime_signals \<Rightarrow> regime_signals" where
  "extract_signals det market =
     market\<lparr>regime_persistence :=
       (if regime_history det \<noteq> []
        then real (length (filter (\<lambda>r. fst (snd r) = current_regime det)
                             (last_n 20 (regime_history det)))) / 20.0
        else 0.0)\<rparr>"

definition update_regime ::
  "market_regime_detector \<Rightarrow> regime_signals \<Rightarrow> int option
     \<Rightarrow> market_regime_detector \<times> (market_regime \<times> real)" where
  "update_regime det market timestamp =
     (let signals = extract_signals det market;
          (new_regime, confidence) = detect_regime det signals;
          det1 = (if new_regime \<noteq> current_regime det
                  then det\<lparr>current_regime := new_regime, regime_start_time := timestamp\<rparr>
                  else det);
          det2 = (case timestamp of
                    None \<Rightarrow> det1
                  | Some ts \<Rightarrow>
                      if ts = 0 then det1
                      else (let h = regime_history det1 @ [(ts, new_regime, confidence)]
                            in det1\<lparr>regime_history :=
                                       (if length h > 1000 then last_n 1000 h else h)\<rparr>))
      in (det2\<lparr>regime_confidence := confidence\<rparr>, (new_regime, confidence)))"

definition get_recommended_strategies ::
  "market_regime_detector \<Rightarrow> market_regime option \<Rightarrow> string list" where
  "get_recommended_strategies det regime =
     (case (case regime of None \<Rightarrow> current_regime det | Some r \<Rightarrow> r) of
        HIGH_VOLATILITY_TRENDING \<Rightarrow>
          [''Breakout Scalping'', ''Momentum Reversal'', ''Support/Resistance Bounce'',
           ''Order Flow Imbalance'']
      | LOW_VOLATILITY_RANGING \<Rightarrow>
          [''Market Making'', ''VWAP Reversion'', ''Order Flow Imbalance'',
           ''Support/Resistance Bounce'']
      | MOMENTUM_EXHAUSTION \<Rightarrow>
          [''Momentum Reversal'', ''VWAP Reversion'', ''Support/Resistance Bounce'',
           ''Order Flow Imbalance'']
      | MIXED \<Rightarrow>
          [''Order Flow Imbalance'', ''VWAP Reversion'', ''Breakout Scalping'',
           ''Market Making'', ''Momentum Reversal'', ''Support/Resistance Bounce'']
      | UNKNOWN \<Rightarrow>
          [''Order Flow Imbalance'', ''VWAP Reversion'', ''Support/Resistance Bounce''])"

section \<open>src/core/strategy\_selector.py\<close>

text \<open>An entry of \<^verbatim>\<open>recent_trades\<close> is the pair of its \<^verbatim>\<open>'pnl'\<close> and its \<^verbatim>\<open>'win'\<close>.\<close>

record strategy_stats =
  wins :: int
  losses :: int
  total_pnl :: real
  recent_trades :: "(real \<times> bool) list"
  win_rate :: real
  avg_pnl :: real
  enabled :: bool

text \<open>
  \<open>strategies\<close> holds the keys of \<^verbatim>\<open>self.strategies\<close> in registration order; the
  strategy objects themselves are external collaborators.
\<close>

record strategy_selector =
  strategies :: "string list"
  regime_detector :: market_regime_detector
  strategy_stats :: "(string \<times> strategy_stats) list"
  min_confidence :: real
  performance_weight :: real
  regime_weight :: real

definition initial_stats :: strategy_stats where
  "initial_stats =
     \<lparr>wins = 0, losses = 0, total_pnl = 0, recent_trades = [], win_rate = 0, avg_pnl = 0,
      enabled = True\<rparr>"

text \<open>The keys of \<^verbatim>\<open>{s.name: s for s in strategies}\<close>: first occurrences, in order.\<close>

fun dict_keys_of :: "string list \<Rightarrow> string list \<Rightarrow> string list" where
  "dict_keys_of seen [] = []"
| "dict_keys_of seen (n # ns) =
     (if n \<in> set seen then dict_keys_of seen ns else n # dict_keys_of (n # seen) ns)"

definition StrategySelector_init :: "string list \<Rightarrow> strategy_selector" where
  "StrategySelector_init names =
     \<lparr>strategies = dict_keys_of [] names,
      regime_detector = MarketRegimeDetector_init,
      strategy_stats = map (\<lambda>n. (n, initial_stats)) (dict_keys_of [] names),
      min_confidence = 0.6, performance_weight = 0.3, regime_weight = 0.7\<rparr>"

definition update_stats :: "strategy_stats \<Rightarrow> real \<Rightarrow> bool \<Rightarrow> strategy_stats" where
  "update_stats stats pnl' win =
     (let s1 = (if win then stats\<lparr>wins := wins stats + 1\<rparr>
                else stats\<lparr>losses := losses stats + 1\<rparr>);
          s2 = s1\<lparr>total_pnl := total_pnl s1 + pnl'\<rparr>;
          r = recent_trades s2 @ [(pnl', win)];
          s3 = s2\<lparr>recent_trades := (if length r > 20 then last_n 20 r else r)\<rparr>;
          total_trades = wins s3 + losses s3;
          s4 = (if total_trades > 0
                then s3\<lparr>win_rate := real_of_int (wins s3) / real_of_int total_trades,
                        avg_pnl := total_pnl s3 / real_of_int total_trades\<rparr>
                else s3)
      in if total_trades \<ge> 10
         then (if win_rate s4 < 0.35 then s4\<lparr>enabled := False\<rparr>
               else if win_rate s4 > 0.45 \<and> \<not> enabled s4 then s4\<lparr>enabled := True\<rparr>
               else s4)
         else s4)"

definition update_strategy_performance ::
  "strategy_selector \<Rightarrow> string \<Rightarrow> real \<Rightarrow> bool \<Rightarrow> strategy_selector" where
  "update_strategy_performance sel strategy_name pnl' win =
     (case map_of (strategy_stats sel) strategy_name of
        None \<Rightarrow> sel
      | Some stats \<Rightarrow>
          sel\<lparr>strategy_stats :=
                AList.update strategy_name (update_stats stats pnl' win) (strategy_stats sel)\<rparr>)"

text \<open>\<^verbatim>\<open>list.index\<close> of an element that occurs in the list.\<close>

fun index_of :: "'a \<Rightarrow> 'a list \<Rightarrow> nat" where
  "index_of x [] = 0"
| "index_of x (y # ys) = (if x = y then 0 else Suc (index_of x ys))"

definition np_clip :: "real \<Rightarrow> real \<Rightarrow> real \<Rightarrow> real" where
  "np_clip x lo hi = min (max x lo) hi"

definition np_mean :: "real list \<Rightarrow> real" where
  "np_mean xs = sum_list xs / real (length xs)"

definition performance_score :: "strategy_stats \<Rightarrow> real" where
  "performance_score stats =
     (if wins stats + losses stats = 0 then 0.5
      else (let recent = last_n 10 (recent_trades stats);
                recent_wins = length (filter snd recent);
                recent_wr = (if recent \<noteq> [] then real recent_wins / real (length recent)
                             else 0.5);
                recent_pnl = (if recent \<noteq> [] then np_mean (map fst recent) else 0.0)
            in (recent_wr * 0.6) + (min (recent_pnl / 100) 0.4)))"

definition calculate_strategy_score ::
  "strategy_selector \<Rightarrow> string \<Rightarrow> market_regime \<Rightarrow> real \<Rightarrow> py_error + real" where
  "calculate_strategy_score sel strategy_name regime regime_confidence' =
     (let recommended = get_recommended_strategies (regime_detector sel) (Some regime);
          regime_score = (if strategy_name \<in> set recommended
                          then 1.0 - (real (index_of strategy_name recommended) * 0.2)
                          else 0.2) * regime_confidence'
      in case map_of (strategy_stats sel) strategy_name of
           None \<Rightarrow> Inl KeyError
         | Some stats \<Rightarrow>
             if \<not> enabled stats then Inr 0.0
             else Inr (np_clip ((regime_score * regime_weight sel)
                                + (performance_score stats * performance_weight sel)) 0 1))"

text \<open>The loop of \<open>select_strategy\<close> that fills \<^verbatim>\<open>strategy_scores\<close>.\<close>

fun strategy_scores ::
  "strategy_selector \<Rightarrow> market_regime \<Rightarrow> real \<Rightarrow> string list \<Rightarrow> (string \<times> real) list
     \<Rightarrow> py_error + (string \<times> real) list" where
  "strategy_scores sel regime conf [] acc = Inr acc"
| "strategy_scores sel regime conf (n # ns) acc =
     (case calculate_strategy_score sel n regime conf of
        Inl e \<Rightarrow> Inl e
      | Inr score \<Rightarrow> strategy_scores sel regime conf ns (AList.update n score acc))"

definition select_strategy ::
  "strategy_selector \<Rightarrow> regime_signals \<Rightarrow> int option
     \<Rightarrow> strategy_selector \<times> (py_error + (string \<times> real) option)" where
  "select_strategy sel market timestamp =
     (case update_regime (regime_detector sel) market timestamp of
        (det1, (regime, regime_confidence')) \<Rightarrow>
          (let sel1 = sel\<lparr>regime_detector := det1\<rparr>
           in case strategy_scores sel1 regime regime_confidence' (strategies sel1) [] of
                Inl e \<Rightarrow> (sel1, Inl e)
              | Inr [] \<Rightarrow> (sel1, Inr None)
              | Inr (x # xs) \<Rightarrow> (sel1, Inr (Some (max_by_key snd x xs)))))"

subsection \<open>Runs of the selector\<close>

text \<open>
  The selectors a program can hold: the one constructed for a list of strategy names,
  then any sequence of \<open>update_strategy_performance\<close> and \<open>select_strategy\<close> calls. The
  second argument records the outcomes passed to \<open>update_strategy_performance\<close>, each
  with the name it was recorded for, oldest first.
\<close>

inductive selector_run ::
  "string list \<Rightarrow> (string \<times> real \<times> bool) list \<Rightarrow> strategy_selector \<Rightarrow> bool" where
  run_init: "selector_run names [] (StrategySelector_init names)"
| run_record:
    "selector_run names es sel \<Longrightarrow>
     selector_run names (es @ [(n, p, w)]) (update_strategy_performance sel n p w)"
| run_select:
    "selector_run names es sel \<Longrightarrow>
     selector_run names es (fst (select_strategy sel market timestamp))"

definition outcomes_of :: "string \<Rightarrow> (string \<times> real \<times> bool) list \<Rightarrow> (real \<times> bool) list" where
  "outcomes_of name es = map snd (filter (\<lambda>e. fst e = name) es)"

text \<open>What the stored statistics of a strategy say about its recorded outcomes.\<close>

definition stats_of_outcomes :: "strategy_stats \<Rightarrow> (real \<times> bool) list \<Rightarrow> bool" where
  "stats_of_outcomes st os =
     (wins st = int (length (filter snd os)) \<and>
      losses st = int (length (filter (\<lambda>oc. \<not> snd oc) os)) \<and>
      recent_trades st = last_n 20 os)"

subsection \<open>The score in the words of the specification\<close>

text \<open>
  The score as the specification words it. The regime score is \<open>1.0 - 0.2 * rank\<close> at the
  0-based position \<open>rank\<close> of the strategy in the regime's recommended list and a flat 0.2
  outside the list, times the regime confidence. The performance score is 0.5 without
  recorded outcomes, and otherwise 0.6 times the win rate of the last ten recorded
  outcomes plus their average PnL over 100, capped at 0.4.
\<close>

definition spec_regime_score :: "string \<Rightarrow> market_regime \<Rightarrow> real \<Rightarrow> real" where
  "spec_regime_score name regime conf =
     (let recommended = get_recommended_strategies MarketRegimeDetector_init (Some regime) in
      if name \<in> set recommended
      then (1.0 - 0.2 * real (length (takeWhile (\<lambda>x. x \<noteq> name) recommended))) * conf
      else 0.2 * conf)"

definition spec_win_rate :: "(real \<times> bool) list \<Rightarrow> real" where
  "spec_win_rate os = real (length (filter snd os)) / real (length os)"

definition spec_average_pnl :: "(real \<times> bool) list \<Rightarrow> real" where
  "spec_average_pnl os = sum_list (map fst os) / real (length os)"

definition spec_performance_score :: "(real \<times> bool) list \<Rightarrow> real" where
  "spec_performance_score os =
     (if os = [] then 0.5
      else 0.6 * spec_win_rate (last_n 10 os) + min (spec_average_pnl (last_n 10 os) / 100) 0.4)"

section \<open>Concrete inputs\<close>

text \<open>
  A ledger with capital 1000, a daily loss limit of 2 percent and at most five positions;
  the same after one long position was opened; after that position was closed at a loss
  of 20; and the ledger after an open request with quantity 0 and leverage 20.
\<close>

definition ex_rm0 :: risk_manager where
  "ex_rm0 = RiskManager_init 0 1000 5 0.02 0.02 5 1.5"

definition ex_rm1 :: risk_manager where
  "ex_rm1 = fst (open_position ex_rm0 10 ''BTCUSDT'' ''LONG'' 50000 0.01 10 49000 None ''unknown'')"

definition ex_rm2 :: risk_manager where
  "ex_rm2 = fst (close_position ex_rm1 20 ''BTCUSDT'' 48000 ''unknown'' None)"

definition ex_rm_bad :: risk_manager where
  "ex_rm_bad = fst (open_position ex_rm0 10 ''BTCUSDT'' ''LONG'' 100 0 20 99 None ''unknown'')"

text \<open>
  The first ledger after an open request with leverage 20, where the maximum it was
  constructed with is 5.
\<close>

definition ex_rm_lev :: risk_manager where
  "ex_rm_lev =
     fst (open_position ex_rm0 10 ''BTCUSDT'' ''LONG'' 50000 0.01 20 49000 None ''unknown'')"

text \<open>
  Signals that trigger none of the thirteen scoring conditions of \<open>detect_regime\<close> at the
  thresholds the detector is constructed with.
\<close>

definition ex_quiet_signals :: regime_signals where
  "ex_quiet_signals =
     \<lparr>volatility = 0.02, trend_strength = 30, volume_trend = 0, orderbook_imbalance = 0,
      funding_rate = 0, funding_trend = 0, rsi = 50, price_momentum = 0.3,
      liquidity_score = 0.5, regime_persistence = 0\<rparr>"

text \<open>
  An exchange that reports no open position and one fill of the closed position, with a
  realized PnL of 12.5.
\<close>

definition ex_user_trades :: "string \<Rightarrow> py_error + account_trade list" where
  "ex_user_trades symb = Inr [\<lparr>fill_price = Some 51000, fill_realized_pnl = Some 12.5\<rparr>]"

text \<open>
  A selector with the single strategy \<^verbatim>\<open>"Market Making"\<close>: after one loss of 1000, and
  after ten losses of 1.
\<close>

definition ex_sel_loss :: strategy_selector where
  "ex_sel_loss =
     update_strategy_performance (StrategySelector_init [''Market Making''])
       ''Market Making'' (- 1000) False"

definition ex_sel_disabled :: strategy_selector where
  "ex_sel_disabled =
     foldl (\<lambda>sel k. update_strategy_performance sel ''Market Making'' (- 1) False)
       (StrategySelector_init [''Market Making'']) [1, 2, 3, 4, 5, 6, 7, 8, 9, 10 :: int]"

section \<open>Evaluation of the concrete ledgers\<close>

lemmas ex_defs = ex_rm0_def RiskManager_init_def

lemmas eval_defs = can_open_position_def reset_daily_stats_def one_day_def dict_contains_def
  open_position_def close_position_def Let_def

lemmas f64_eval = f64_def binary_exponent_def negative_exponent_def round_half_even_def
  nearest_even_def round_to_unit_def pow2_def bit_length.simps

text \<open>
  The rounding agrees with the binary64 values of \<^verbatim>\<open>0.1\<close>, \<^verbatim>\<open>0.005\<close>, \<^verbatim>\<open>2/3\<close>,
  \<^verbatim>\<open>-7/5\<close> and \<^verbatim>\<open>float(12345678901234567890)\<close>, and keeps a binary64 number.
\<close>

lemma f64_examples:
  "f64 (1 / 10) = 3602879701896397 / 2 ^ 55"
  "f64 0.005 = 5764607523034235 / 2 ^ 60"
  "f64 (2 / 3) = 6004799503160661 / 2 ^ 53"
  "f64 (- 7 / 5) = - (3152519739159347 / 2 ^ 51)"
  "f64 12345678901234567890 = 12345678901234567168"
  "f64 (1 / 4) = 1 / 4"
  by (simp_all add: f64_eval)

text \<open>
  The liquidation prices of the requests used below, as Python prints them: 45250.0,
  54750.00000000001, 40300.00000000001, 95.5, 47750.0 and 52250.00000000001.
\<close>

lemma liquidation_price_examples:
  "calculate_liquidation_price 50000 10 ''LONG'' default_maintenance_margin_rate = Inr 45250"
  "calculate_liquidation_price 50000 10 ''SHORT'' default_maintenance_margin_rate
     = Inr (7524782702592001 / 2 ^ 37)"
  "calculate_liquidation_price 60000 3 ''LONG'' default_maintenance_margin_rate
     = Inr (40300 + 1 / 2 ^ 37)"
  "calculate_liquidation_price 100 20 ''LONG'' default_maintenance_margin_rate = Inr 95.5"
  "calculate_liquidation_price 50000 20 ''LONG'' default_maintenance_margin_rate = Inr 47750"
  "calculate_liquidation_price 50000 20 ''SHORT'' default_maintenance_margin_rate
     = Inr (7181185318912001 / 2 ^ 37)"
  by (simp_all add: calculate_liquidation_price_def default_maintenance_margin_rate_def
        f64_eval)

lemma ex_rm1_eq:
  "ex_rm1 = ex_rm0\<lparr>positions := [(''BTCUSDT'', \<lparr>symbol = ''BTCUSDT'', side = ''LONG'',
      entry_price = 50000, quantity = 0.01, leverage = 10, stop_loss = Some 49000,
      take_profit = None, unrealized_pnl = 0, liquidation_price = Some 45250,
      entry_time = 10, strategy = ''unknown'', sl_order_id = None, tp_order_id = None\<rparr>)],
    daily_trades := 1\<rparr>"
  by (simp add: ex_rm1_def ex_defs eval_defs liquidation_price_examples)

lemma ex_rm2_eq:
  "ex_rm2 = ex_rm0\<lparr>current_capital := 980, daily_pnl := - 20, daily_trades := 1,
     trades := [\<lparr>trade_symbol = ''BTCUSDT'', trade_side = ''LONG'',
          trade_entry_price = 50000, exit_price = 48000,
          trade_quantity = 0.01, trade_leverage = 10, pnl = - 20,
          pnl_percentage = - 4, trade_entry_time = 10, exit_time = 20,
          trade_strategy = ''unknown''\<rparr>]\<rparr>"
  by (simp add: ex_rm2_def ex_rm1_eq) (simp add: ex_defs eval_defs)

lemma ex_rm_bad_eq:
  "ex_rm_bad = ex_rm0\<lparr>positions := [(''BTCUSDT'', \<lparr>symbol = ''BTCUSDT'', side = ''LONG'',
      entry_price = 100, quantity = 0, leverage = 20, stop_loss = Some 99,
      take_profit = None, unrealized_pnl = 0, liquidation_price = Some 95.5,
      entry_time = 10, strategy = ''unknown'', sl_order_id = None, tp_order_id = None\<rparr>)],
    daily_trades := 1\<rparr>"
  by (simp add: ex_rm_bad_def ex_defs eval_defs liquidation_price_examples)

lemma ex_rm_lev_eq:
  "ex_rm_lev = ex_rm0\<lparr>positions := [(''BTCUSDT'', \<lparr>symbol = ''BTCUSDT'', side = ''LONG'',
      entry_price = 50000, quantity = 0.01, leverage = 20, stop_loss = Some 49000,
      take_profit = None, unrealized_pnl = 0, liquidation_price = Some 47750,
      entry_time = 10, strategy = ''unknown'', sl_order_id = None, tp_order_id = None\<rparr>)],
    daily_trades := 1\<rparr>"
  by (simp add: ex_rm_lev_def ex_defs eval_defs liquidation_price_examples)

section \<open>The position ledger\<close>

lemma positions_reset_daily_stats [simp]:
  "positions (reset_daily_stats rm now) = positions rm"
  by (simp add: reset_daily_stats_def)

lemma fst_can_open_position [simp]:
  "fst (can_open_position rm now symb) = reset_daily_stats rm now"
  by (simp add: can_open_position_def Let_def)

lemma can_open_position_contains:
  "dict_contains symb (positions rm) \<Longrightarrow> \<not> snd (can_open_position rm now symb)"
  by (simp add: can_open_position_def Let_def)

lemma map_of_None_iff_not_contains:
  "map_of d k = None \<longleftrightarrow> \<not> dict_contains k d"
  by (simp add: dict_contains_def map_of_eq_None_iff)

text \<open>The three ways in which \<open>open_position\<close> ends.\<close>

lemma open_position_cases:
  "open_position rm now symb sd ep q lev sl tp strat =
     (if \<not> snd (can_open_position rm now symb) then (reset_daily_stats rm now, Inr None)
      else case calculate_liquidation_price ep lev sd default_maintenance_margin_rate of
             Inl e \<Rightarrow> (reset_daily_stats rm now, Inl e)
           | Inr liq \<Rightarrow>
               if (sd = ''LONG'' \<and> sl \<le> liq) \<or> (sd \<noteq> ''LONG'' \<and> sl \<ge> liq)
               then (reset_daily_stats rm now, Inr None)
               else (let p = \<lparr>symbol = symb, side = sd, entry_price = ep,
                           quantity = q, leverage = lev,
                           stop_loss = Some sl, take_profit = tp,
                           unrealized_pnl = 0, liquidation_price = Some liq,
                           entry_time = now, strategy = strat,
                           sl_order_id = None, tp_order_id = None\<rparr>
                     in ((reset_daily_stats rm now)
                           \<lparr>positions := AList.update symb p (positions rm),
                            daily_trades := daily_trades (reset_daily_stats rm now) + 1\<rparr>,
                         Inr (Some p))))"
proof -
  have c: "can_open_position rm now symb =
             (reset_daily_stats rm now, snd (can_open_position rm now symb))"
    by (metis fst_can_open_position prod.collapse)
  show ?thesis
    unfolding open_position_def
    by (subst c, subst c) (simp add: Let_def split: sum.splits)
qed

text \<open>
  C10. For a symbol with no open position, \<open>close_position\<close> returns no trade
  (\<open>None\<close>, not an exception) and leaves the whole ledger as it was: the position map,
  the trade history, the capital and the daily PnL, whatever the exit price, the strategy
  name and the realized PnL passed in.
\<close>

theorem close_position_missing_symbol_noop:
  "\<not> dict_contains symb (positions rm) \<Longrightarrow>
   close_position rm now symb xp strat rp = (rm, Inr None)"
  by (simp add: close_position_def map_of_None_iff_not_contains[symmetric])

theorem close_position_missing_symbol_noop_witness:
  "\<not> dict_contains ''ETHUSDT'' (positions ex_rm1) \<and>
   close_position ex_rm1 20 ''ETHUSDT'' 3000 ''unknown'' (Some 12.5) = (ex_rm1, Inr None)"
  using close_position_missing_symbol_noop [of "''ETHUSDT''" ex_rm1 20 3000 "''unknown''" "Some 12.5"]
  by (simp add: ex_rm1_eq dict_contains_def)

text \<open>
  C1. Let \<open>liq\<close> be the liquidation price computed for the request. A long request whose
  stop-loss is at or below \<open>liq\<close>, and a request of the other side whose stop-loss is at
  or above \<open>liq\<close>, is rejected: \<open>open_position\<close> returns \<open>None\<close> and the position map
  is the one before the call. When the other gates of \<open>can_open_position\<close> pass and the
  stop-loss is strictly on the safe side of \<open>liq\<close>, the request succeeds: the position
  returned carries the symbol, the side, the stop-loss and \<open>liq\<close>, and is stored under
  its symbol. (The source takes every side other than \<^verbatim>\<open>"LONG"\<close> as short.)
\<close>

theorem open_position_stop_loss_gate:
  "(calculate_liquidation_price ep lev sd default_maintenance_margin_rate = Inr liq \<and>
    ((sd = ''LONG'' \<and> sl \<le> liq) \<or> (sd \<noteq> ''LONG'' \<and> sl \<ge> liq)) \<longrightarrow>
      snd (open_position rm now symb sd ep q lev sl tp strat) = Inr None \<and>
      positions (fst (open_position rm now symb sd ep q lev sl tp strat)) = positions rm) \<and>
   (calculate_liquidation_price ep lev sd default_maintenance_margin_rate = Inr liq \<and>
    snd (can_open_position rm now symb) \<and>
    ((sd = ''LONG'' \<and> sl > liq) \<or> (sd \<noteq> ''LONG'' \<and> sl < liq)) \<longrightarrow>
      (\<exists>p. snd (open_position rm now symb sd ep q lev sl tp strat) = Inr (Some p) \<and>
           symbol p = symb \<and> side p = sd \<and> stop_loss p = Some sl \<and>
           liquidation_price p = Some liq \<and>
           positions (fst (open_position rm now symb sd ep q lev sl tp strat)) =
             AList.update symb p (positions rm)))"
  by (auto simp: open_position_cases Let_def)

text \<open>
  At entry 50000 and leverage 10 the liquidation price is 45250 for a long and
  54750.00000000001 for a short position: a long stop at 45250 and a short stop at 54751
  are rejected, a long stop at 49000 and short stops at 51000 and at 54750 are accepted.
  At entry 60000 and leverage 3 the liquidation price of a long position is
  40300.00000000001, and a long stop at that price is rejected.
\<close>

theorem open_position_stop_loss_gate_witness:
  "calculate_liquidation_price 50000 10 ''LONG'' default_maintenance_margin_rate = Inr 45250 \<and>
   snd (open_position ex_rm0 10 ''BTCUSDT'' ''LONG'' 50000 0.01 10 45250 None ''unknown'') = Inr None \<and>
   positions (fst (open_position ex_rm0 10 ''BTCUSDT'' ''LONG'' 50000 0.01 10 45250 None ''unknown''))
     = positions ex_rm0 \<and>
   snd (can_open_position ex_rm0 10 ''BTCUSDT'') \<and>
   map fst (positions (fst (open_position ex_rm0 10 ''BTCUSDT'' ''LONG'' 50000 0.01 10 49000 None ''unknown'')))
     = [''BTCUSDT''] \<and>
   calculate_liquidation_price 50000 10 ''SHORT'' default_maintenance_margin_rate
     = Inr (7524782702592001 / 2 ^ 37) \<and>
   snd (open_position ex_rm0 10 ''BTCUSDT'' ''SHORT'' 50000 0.01 10 54751 None ''unknown'') = Inr None \<and>
   map fst (positions (fst (open_position ex_rm0 10 ''BTCUSDT'' ''SHORT'' 50000 0.01 10 51000 None ''unknown'')))
     = [''BTCUSDT''] \<and>
   map fst (positions (fst (open_position ex_rm0 10 ''BTCUSDT'' ''SHORT'' 50000 0.01 10 54750 None ''unknown'')))
     = [''BTCUSDT''] \<and>
   calculate_liquidation_price 60000 3 ''LONG'' default_maintenance_margin_rate
     = Inr (40300 + 1 / 2 ^ 37) \<and>
   snd (open_position ex_rm0 10 ''BTCUSDT'' ''LONG'' 60000 0.01 3 (40300 + 1 / 2 ^ 37) None ''unknown'')
     = Inr None"
  using open_position_stop_loss_gate [where ep = 50000 and lev = 10 and sd = "''LONG''"
      and liq = "45250" and sl = 45250 and rm = ex_rm0 and now = 10 and symb = "''BTCUSDT''"
      and q = "0.01" and tp = None and strat = "''unknown''"]
    open_position_stop_loss_gate [where ep = 50000 and lev = 10 and sd = "''LONG''"
      and liq = "45250" and sl = 49000 and rm = ex_rm0 and now = 10 and symb = "''BTCUSDT''"
      and q = "0.01" and tp = None and strat = "''unknown''"]
    open_position_stop_loss_gate [where ep = 50000 and lev = 10 and sd = "''SHORT''"
      and liq = "7524782702592001 / 2 ^ 37" and sl = 54751 and rm = ex_rm0 and now = 10 and symb = "''BTCUSDT''"
      and q = "0.01" and tp = None and strat = "''unknown''"]
    open_position_stop_loss_gate [where ep = 50000 and lev = 10 and sd = "''SHORT''"
      and liq = "7524782702592001 / 2 ^ 37" and sl = 51000 and rm = ex_rm0 and now = 10 and symb = "''BTCUSDT''"
      and q = "0.01" and tp = None and strat = "''unknown''"]
    open_position_stop_loss_gate [where ep = 50000 and lev = 10 and sd = "''SHORT''"
      and liq = "7524782702592001 / 2 ^ 37" and sl = 54750 and rm = ex_rm0 and now = 10 and symb = "''BTCUSDT''"
      and q = "0.01" and tp = None and strat = "''unknown''"]
    open_position_stop_loss_gate [where ep = 60000 and lev = 3 and sd = "''LONG''"
      and liq = "40300 + 1 / 2 ^ 37" and sl = "40300 + 1 / 2 ^ 37" and rm = ex_rm0 and now = 10
      and symb = "''BTCUSDT''" and q = "0.01" and tp = None and strat = "''unknown''"]
  by (simp add: ex_defs eval_defs liquidation_price_examples)

section \<open>Invariants of the ledger\<close>

lemma list_all_update:
  "P (k, v) \<Longrightarrow> list_all P d \<Longrightarrow> list_all P (AList.update k v d)"
  by (induction d) auto

lemma list_all_delete: "list_all P d \<Longrightarrow> list_all P (AList.delete k d)"
  by (simp add: AList.delete_eq list_all_iff)

lemma value_symbol_is_key:
  "list_all (\<lambda>kp. symbol (snd kp) = fst kp) d \<Longrightarrow> map_of d k = Some p \<Longrightarrow> symbol p = k"
  by (auto simp: list_all_iff dest!: map_of_SomeD)

lemma value_satisfies:
  "list_all P d \<Longrightarrow> map_of d k = Some p \<Longrightarrow> P (k, p)"
  by (auto simp: list_all_iff dest!: map_of_SomeD)

lemma ledger_inv_init: "ledger_inv (RiskManager_init now ic ml rpt mdl mop mrr)"
  by (simp add: ledger_inv_def ledger_wf_def RiskManager_init_def)

lemma liquidation_price_defined:
  "calculate_liquidation_price ep lev sd mmr = Inr liq \<Longrightarrow> lev \<noteq> 0"
  by (auto simp: calculate_liquidation_price_def split: if_splits)

lemma ledger_inv_open:
  assumes "ledger_inv rm"
  shows "ledger_inv (fst (open_position rm now symb sd ep q lev sl tp strat))"
  using assms
  by (auto simp: open_position_cases ledger_inv_def ledger_wf_def Let_def distinct_update
        list_all_update split: sum.splits dest: liquidation_price_defined)

lemma ledger_inv_update:
  assumes "ledger_inv rm"
  shows "ledger_inv (update_position rm symb price)"
proof (cases "map_of (positions rm) symb")
  case None
  then show ?thesis using assms by (simp add: update_position_def)
next
  case (Some p)
  have "symbol p = symb" and "leverage p \<noteq> 0"
    using assms Some value_symbol_is_key[of "positions rm" symb p]
      value_satisfies[of "\<lambda>kp. leverage (snd kp) \<noteq> 0" "positions rm" symb p]
    by (simp_all add: ledger_inv_def ledger_wf_def)
  then show ?thesis
    using assms Some
    by (simp add: update_position_def ledger_inv_def ledger_wf_def Let_def distinct_update
          list_all_update)
qed

lemma close_position_positions:
  "positions (fst (close_position rm now symb xp strat rp)) = positions rm \<or>
   positions (fst (close_position rm now symb xp strat rp)) = AList.delete symb (positions rm)"
  by (auto simp: close_position_def Let_def split: option.splits sum.splits prod.splits if_splits)

lemma ledger_inv_close:
  assumes "ledger_inv rm"
  shows "ledger_inv (fst (close_position rm now symb xp strat rp))"
  using assms close_position_positions[of rm now symb xp strat rp]
  by (auto simp: ledger_inv_def ledger_wf_def distinct_delete list_all_delete)

lemma reachable_ledger_inv: "reachable rm \<Longrightarrow> ledger_inv rm"
  by (induction rule: reachable.induct)
     (simp_all add: ledger_inv_init ledger_inv_open ledger_inv_update ledger_inv_close)

lemma filter_key_absent:
  "k \<notin> fst ` set d \<Longrightarrow> filter (\<lambda>kp. fst kp = k) d = []"
  by (induction d) auto

lemma distinct_keys_filter_le_1:
  "distinct (map fst d) \<Longrightarrow> length (filter (\<lambda>kp. fst kp = k) d) \<le> 1"
  by (induction d) (auto simp: filter_key_absent)

lemma ledger_wf_positions_for: 
  assumes "ledger_wf rm"
  shows "positions_for rm symb \<le> 1"
proof -
  have "filter (\<lambda>p. symbol p = symb) (map snd (positions rm))
          = map snd (filter (\<lambda>kp. symbol (snd kp) = symb) (positions rm))"
    by (simp add: filter_map comp_def)
  also have "filter (\<lambda>kp. symbol (snd kp) = symb) (positions rm)
          = filter (\<lambda>kp. fst kp = symb) (positions rm)"
    using assms by (intro filter_cong) (auto simp: ledger_wf_def list_all_iff)
  finally show ?thesis
    using assms distinct_keys_filter_le_1[of "positions rm" symb]
    by (simp add: positions_for_def ledger_wf_def)
qed

text \<open>
  What the code maintains of the invariant of the ledger: in every state reachable by
  open, update and close operations there is at most one position per symbol and no held
  position has leverage 0, and an open request for a symbol that already has a position
  is rejected and leaves the position map as it was.
\<close>

lemma ledger_one_position_per_symbol:
  assumes "reachable rm"
  shows "positions_for rm symb \<le> 1 \<and>
         list_all (\<lambda>kp. leverage (snd kp) \<noteq> 0) (positions rm) \<and>
         (dict_contains symb (positions rm) \<longrightarrow>
            snd (open_position rm now symb sd ep q lev sl tp strat) = Inr None \<and>
            positions (fst (open_position rm now symb sd ep q lev sl tp strat)) = positions rm)"
  using reachable_ledger_inv[OF assms] ledger_wf_positions_for[of rm symb]
    can_open_position_contains[of symb rm now]
  by (simp add: ledger_inv_def open_position_cases)

lemma reachable_ex_rm_lev: "reachable ex_rm_lev"
  unfolding ex_rm_lev_def ex_rm0_def by (intro reachable_open reachable_init)

text \<open>
  C2, at a failing input. A ledger is constructed with a maximum leverage of 5 and one
  long position of quantity 0.01 is opened with leverage 20: the request passes every
  gate of \<open>open_position\<close>, and the reachable ledger holds a position whose leverage is
  above the configured maximum. (\<open>max_leverage\<close> is stored by the constructor and read
  by no operation.)
\<close>

theorem open_position_exceeds_max_leverage:
  "reachable ex_rm_lev \<and> max_leverage ex_rm_lev = 5 \<and>
   map fst (positions ex_rm_lev) = [''BTCUSDT''] \<and>
   map (leverage \<circ> snd) (positions ex_rm_lev) = [20] \<and>
   map (quantity \<circ> snd) (positions ex_rm_lev) = [0.01]"
  using reachable_ex_rm_lev by (simp add: ex_rm_lev_eq ex_defs)

section \<open>Closing a position\<close>

text \<open>What a successful close does.\<close>

lemma close_position_realized:
  assumes "map_of (positions rm) symb = Some p" and "entry_price p * quantity p \<noteq> 0"
  shows "close_position rm now symb xp strat (Some r) =
           (let t = \<lparr>trade_symbol = symb, trade_side = side p,
                     trade_entry_price = entry_price p, exit_price = xp,
                     trade_quantity = quantity p, trade_leverage = leverage p,
                     pnl = r, pnl_percentage = (r / (entry_price p * quantity p)) * 100,
                     trade_entry_time = entry_time p, exit_time = now,
                     trade_strategy = strat\<rparr>
            in (rm\<lparr>current_capital := current_capital rm + r,
                    daily_pnl := daily_pnl rm + r,
                    trades := trades rm @ [t],
                    positions := AList.delete symb (positions rm)\<rparr>,
                Inr (Some t)))"
  using assms by (simp add: close_position_def Let_def)

lemma close_position_computed:
  assumes "map_of (positions rm) symb = Some p" and "entry_price p \<noteq> 0"
  shows "close_position rm now symb xp strat None =
           (let u = (if side p = ''LONG'' then xp - entry_price p else entry_price p - xp);
                t = \<lparr>trade_symbol = symb, trade_side = side p,
                     trade_entry_price = entry_price p, exit_price = xp,
                     trade_quantity = quantity p, trade_leverage = leverage p,
                     pnl = u * quantity p, pnl_percentage = (u / entry_price p) * 100,
                     trade_entry_time = entry_time p, exit_time = now,
                     trade_strategy = strat\<rparr>
            in (rm\<lparr>current_capital := current_capital rm + u * quantity p,
                    daily_pnl := daily_pnl rm + u * quantity p,
                    trades := trades rm @ [t],
                    positions := AList.delete symb (positions rm)\<rparr>,
                Inr (Some t)))"
  using assms by (simp add: close_position_def Let_def)

lemma not_contains_delete: "\<not> dict_contains k (AList.delete k d)"
  by (simp add: dict_contains_def delete_keys)

text \<open>
  C3, as the code has it. For an open position whose entry price times quantity is not
  zero, closing with a supplied realized PnL \<open>r\<close> yields one trade whose \<open>pnl\<close> is
  exactly \<open>r\<close>, whatever the entry and exit prices; \<open>r\<close> is added to the current
  capital and to the daily PnL, the position leaves the map and the trade is appended to
  the history. For an open position whose entry price is not zero, closing without a
  realized PnL books \<open>(exit - entry) * quantity\<close> for a long position and
  \<open>(entry - exit) * quantity\<close> otherwise, with no leverage factor.
\<close>

theorem close_position_books_trade:
  assumes "map_of (positions rm) symb = Some p"
  shows "(entry_price p * quantity p \<noteq> 0 \<longrightarrow>
            (\<exists>t. snd (close_position rm now symb xp strat (Some r)) = Inr (Some t) \<and>
                 pnl t = r \<and>
                 current_capital (fst (close_position rm now symb xp strat (Some r)))
                   = current_capital rm + r \<and>
                 daily_pnl (fst (close_position rm now symb xp strat (Some r)))
                   = daily_pnl rm + r \<and>
                 positions (fst (close_position rm now symb xp strat (Some r)))
                   = AList.delete symb (positions rm) \<and>
                 \<not> dict_contains symb
                     (positions (fst (close_position rm now symb xp strat (Some r)))) \<and>
                 trades (fst (close_position rm now symb xp strat (Some r)))
                   = trades rm @ [t])) \<and>
         (entry_price p \<noteq> 0 \<longrightarrow>
            (\<exists>t. snd (close_position rm now symb xp strat None) = Inr (Some t) \<and>
                 pnl t = (if side p = ''LONG'' then (xp - entry_price p) * quantity p
                          else (entry_price p - xp) * quantity p) \<and>
                 current_capital (fst (close_position rm now symb xp strat None))
                   = current_capital rm + pnl t \<and>
                 daily_pnl (fst (close_position rm now symb xp strat None))
                   = daily_pnl rm + pnl t \<and>
                 positions (fst (close_position rm now symb xp strat None))
                   = AList.delete symb (positions rm) \<and>
                 \<not> dict_contains symb
                     (positions (fst (close_position rm now symb xp strat None))) \<and>
                 trades (fst (close_position rm now symb xp strat None))
                   = trades rm @ [t]))"
  using assms
  by (simp add: close_position_realized close_position_computed Let_def not_contains_delete)

theorem close_position_books_trade_witness:
  "map_of (positions ex_rm1) ''BTCUSDT'' =
     Some \<lparr>symbol = ''BTCUSDT'', side = ''LONG'',
      entry_price = 50000, quantity = 0.01, leverage = 10, stop_loss = Some 49000,
      take_profit = None, unrealized_pnl = 0, liquidation_price = Some 45250,
      entry_time = 10, strategy = ''unknown'', sl_order_id = None, tp_order_id = None\<rparr> \<and>
   map pnl (trades (fst (close_position ex_rm1 20 ''BTCUSDT'' 51000 ''unknown'' (Some 12.5)))) = [12.5] \<and>
   current_capital (fst (close_position ex_rm1 20 ''BTCUSDT'' 51000 ''unknown'' (Some 12.5))) = 1012.5 \<and>
   map pnl (trades (fst (close_position ex_rm1 20 ''BTCUSDT'' 51000 ''unknown'' None))) = [10] \<and>
   positions (fst (close_position ex_rm1 20 ''BTCUSDT'' 51000 ''unknown'' None)) = []"
  using close_position_books_trade [where rm = ex_rm1 and symb = "''BTCUSDT''" and now = 20
      and xp = 51000 and strat = "''unknown''" and r = "12.5"
      and p = "\<lparr>symbol = ''BTCUSDT'', side = ''LONG'',
      entry_price = 50000, quantity = 0.01, leverage = 10, stop_loss = Some 49000,
      take_profit = None, unrealized_pnl = 0, liquidation_price = Some 45250,
      entry_time = 10, strategy = ''unknown'', sl_order_id = None, tp_order_id = None\<rparr>"]
  by (simp add: ex_rm1_eq ex_defs close_position_def Let_def)

text \<open>
  The percentage \<^verbatim>\<open>pnl / (entry_price * quantity)\<close> is computed before anything is
  booked: on a position of quantity 0 the close raises \<open>ZeroDivisionError\<close>, books no
  trade and leaves the position open.
\<close>

theorem close_position_zero_quantity_counterexample:
  "dict_contains ''BTCUSDT'' (positions ex_rm_bad) \<and>
   close_position ex_rm_bad 20 ''BTCUSDT'' 101 ''unknown'' (Some 12.5)
     = (ex_rm_bad, Inl ZeroDivisionError)"
  by (simp add: ex_rm_bad_eq ex_defs close_position_def dict_contains_def)

section \<open>The daily loss breaker\<close>

text \<open>
  C4, as the code has it. With an initial capital of 1000 and a daily loss fraction of 0.02,
  in every state whose daily PnL is strictly below \<open>-20\<close>, and while no daily reset is
  due, \<open>can_open_position\<close> answers \<open>False\<close> for every symbol.
\<close>

theorem daily_loss_breaker:
  assumes "initial_capital rm = 1000" and "max_daily_loss rm = 0.02"
    and "daily_pnl rm < - 20" and "now - last_reset rm \<le> one_day"
  shows "\<not> snd (can_open_position rm now symb)"
  using assms by (simp add: can_open_position_def reset_daily_stats_def Let_def)

theorem daily_loss_breaker_witness:
  "initial_capital (ex_rm2\<lparr>daily_pnl := - 20.5\<rparr>) = 1000 \<and>
   max_daily_loss (ex_rm2\<lparr>daily_pnl := - 20.5\<rparr>) = 0.02 \<and>
   daily_pnl (ex_rm2\<lparr>daily_pnl := - 20.5\<rparr>) < - 20 \<and>
   30 - last_reset (ex_rm2\<lparr>daily_pnl := - 20.5\<rparr>) \<le> one_day \<and>
   \<not> snd (can_open_position (ex_rm2\<lparr>daily_pnl := - 20.5\<rparr>) 30 ''ETHUSDT'')"
  using daily_loss_breaker [of "ex_rm2\<lparr>daily_pnl := - 20.5\<rparr>" 30 "''ETHUSDT''"]
  by (simp add: ex_rm2_eq ex_defs one_day_def)

text \<open>
  The comparison of the source is strict: at a daily PnL of exactly \<open>-20\<close> a position
  can still be opened.
\<close>

theorem daily_loss_breaker_boundary_counterexample:
  "initial_capital ex_rm2 = 1000 \<and> max_daily_loss ex_rm2 = 0.02 \<and> daily_pnl ex_rm2 = - 20 \<and>
   30 - last_reset ex_rm2 \<le> one_day \<and> snd (can_open_position ex_rm2 30 ''ETHUSDT'')"
  by (simp add: ex_rm2_eq ex_defs eval_defs)

section \<open>The liquidation price\<close>

subsection \<open>The error of one rounding\<close>

lemma bit_length_bounds:
  "0 < n \<Longrightarrow> 1 \<le> bit_length n \<and> 2 ^ nat (bit_length n - 1) \<le> n \<and> n < 2 ^ nat (bit_length n)"
proof (induction n rule: bit_length.induct)
  case (1 n)
  show ?case
  proof (cases "n div 2 = 0")
    case True
    then have "n = 1" using "1.prems" by presburger
    then show ?thesis by (simp add: bit_length.simps)
  next
    case False
    then have pos: "0 < n div 2" using "1.prems" by presburger
    define b where "b = bit_length (n div 2)"
    have ih: "1 \<le> b" "2 ^ nat (b - 1) \<le> n div 2" "n div 2 < 2 ^ nat b"
      using "1.IH" "1.prems" pos by (simp_all add: b_def)
    have bl: "bit_length n = 1 + b"
      using "1.prems" by (subst bit_length.simps) (simp add: b_def)
    have p: "(2::int) ^ nat b = 2 * 2 ^ nat (b - 1)"
      using ih(1) by (metis Suc_nat_eq_nat_zadd1 add.commute diff_add_cancel diff_ge_0_iff_ge power_Suc)
    have q: "(2::int) ^ nat (1 + b) = 2 * 2 ^ nat b"
      using ih(1) by (simp add: nat_add_distrib)
    have "2 ^ nat b \<le> n"
      using ih(2) p by presburger
    moreover have "n < 2 ^ nat (1 + b)"
      using ih(3) q by presburger
    ultimately show ?thesis
      using ih(1) by (simp add: bl)
  qed
qed

lemma pow2_powr: "pow2 e = 2 powr real_of_int e"
  by (simp add: pow2_def powr_real_of_int divide_inverse)


lemma pow2_add: "pow2 (a + b) = pow2 a * pow2 b"
  by (simp add: pow2_powr powr_add)

lemma pow2_nonneg: "0 \<le> k \<Longrightarrow> pow2 k = 2 ^ nat k"
  by (simp add: pow2_def)

lemma pow2_neg: "0 \<le> k \<Longrightarrow> pow2 (- k) = 1 / 2 ^ nat k"
  by (cases "k = 0") (simp_all add: pow2_def)


lemma binary_exponent_upper:
  assumes "0 < a"
  shows "a < pow2 (binary_exponent a + 1)"
proof (cases "1 \<le> a")
  case True
  define n where "n = \<lfloor>a\<rfloor>"
  have n: "0 < n" using True by (simp add: n_def)
  have "n + 1 \<le> 2 ^ nat (bit_length n)"
    using bit_length_bounds[OF n] by linarith
  then have "real_of_int (n + 1) \<le> real_of_int (2 ^ nat (bit_length n))"
    by (simp only: of_int_le_iff)
  then have "real_of_int n + 1 \<le> 2 ^ nat (bit_length n)"
    by simp
  moreover have "a < real_of_int n + 1" by (simp add: n_def)
  ultimately have "a < 2 ^ nat (bit_length n)" by linarith
  then show ?thesis
    using True bit_length_bounds[OF n] by (simp add: binary_exponent_def n_def pow2_nonneg)
next
  case False
  define n where "n = \<lfloor>1 / a\<rfloor>"
  define k where "k = bit_length n - 1"
  have "1 < 1 / a" using assms False by simp
  then have n: "0 < n" by (simp add: n_def)
  have k: "0 \<le> k" using bit_length_bounds[OF n] by (simp add: k_def)
  have "real_of_int (2 ^ nat k) \<le> real_of_int n"
    using bit_length_bounds[OF n] unfolding k_def by (simp only: of_int_le_iff)
  moreover have "real_of_int n \<le> 1 / a" by (simp add: n_def)
  moreover have "real_of_int (2 ^ nat k) = 2 ^ nat k" by simp
  ultimately have "2 ^ nat k \<le> 1 / a" by linarith
  then have upper: "a * 2 ^ nat k \<le> 1"
    using assms by (simp add: field_simps)
  have e: "binary_exponent a = (if a * pow2 k = 1 then - k else - k - 1)"
    using False by (simp add: binary_exponent_def negative_exponent_def n_def k_def)
  show ?thesis
  proof (cases "a * pow2 k = 1")
    case True
    then have "a = 1 / 2 ^ nat k"
      using k by (simp add: pow2_nonneg field_simps)
    moreover have "binary_exponent a + 1 = - k + 1"
      using True e by simp
    moreover have "pow2 1 = 2" by (simp add: pow2_def)
    then have "pow2 (- k + 1) = 2 * (1 / 2 ^ nat k)"
      by (simp only: pow2_add pow2_neg[OF k] mult.commute)
    moreover have "1 / 2 ^ nat k < 2 * (1 / (2::real) ^ nat k)"
      by (simp add: divide_strict_right_mono)
    ultimately show ?thesis by (simp only:)
  next
    case F: False
    then have "a * 2 ^ nat k < 1"
      using upper k by (simp add: pow2_nonneg)
    then have "a < 1 / 2 ^ nat k"
      by (simp add: field_simps)
    moreover have "binary_exponent a + 1 = - k" using F e by simp
    ultimately show ?thesis using pow2_neg[OF k] by simp
  qed
qed










subsection \<open>The price returned\<close>




section \<open>Regime classification\<close>

lemma score_high_vol_trending_nonneg: "0 \<le> score_high_vol_trending det s"
  by (simp add: score_high_vol_trending_def)

lemma score_low_vol_ranging_nonneg: "0 \<le> score_low_vol_ranging det s"
  by (simp add: score_low_vol_ranging_def)

lemma score_momentum_exhaustion_nonneg: "0 \<le> score_momentum_exhaustion det s"
  by (simp add: score_momentum_exhaustion_def)

text \<open>The winner of four non-negative scores and its share of their sum.\<close>

lemma winner_of_four:
  fixes h l m :: real
  assumes "0 \<le> h" "0 \<le> l" "0 \<le> m"
  shows "fst (max_by_key snd (HIGH_VOLATILITY_TRENDING, h)
                [(LOW_VOLATILITY_RANGING, l), (MOMENTUM_EXHAUSTION, m), (MIXED, 1 / 2)])
           \<noteq> UNKNOWN"
    and "0 \<le> snd (max_by_key snd (HIGH_VOLATILITY_TRENDING, h)
                [(LOW_VOLATILITY_RANGING, l), (MOMENTUM_EXHAUSTION, m), (MIXED, 1 / 2)])"
    and "snd (max_by_key snd (HIGH_VOLATILITY_TRENDING, h)
                [(LOW_VOLATILITY_RANGING, l), (MOMENTUM_EXHAUSTION, m), (MIXED, 1 / 2)])
           \<le> h + l + m + 1 / 2"
  using assms by auto

lemma boosted_in_unit_interval:
  fixes c :: real
  assumes "0 \<le> c" "c \<le> 1"
  shows "0 \<le> min 1 (c * 1.1)" "min 1 (c * 1.1) \<le> 1"
  using assms by auto

lemma detect_regime_confidence_bounds:
  "0 \<le> snd (detect_regime det s) \<and> snd (detect_regime det s) \<le> 1 \<and>
   fst (detect_regime det s) \<noteq> UNKNOWN"
proof -
  define h where "h = score_high_vol_trending det s"
  define l where "l = score_low_vol_ranging det s"
  define m where "m = score_momentum_exhaustion det s"
  define b where "b = max_by_key snd (HIGH_VOLATILITY_TRENDING, h)
                [(LOW_VOLATILITY_RANGING, l), (MOMENTUM_EXHAUSTION, m), (MIXED, 1 / 2)]"
  have nn: "0 \<le> h" "0 \<le> l" "0 \<le> m"
    by (simp_all add: h_def l_def m_def score_high_vol_trending_nonneg
          score_low_vol_ranging_nonneg score_momentum_exhaustion_nonneg)
  have b: "fst b \<noteq> UNKNOWN" "0 \<le> snd b" "snd b \<le> h + l + m + 1 / 2"
    unfolding b_def using winner_of_four[OF nn] by blast+
  have pos: "0 < h + l + m + 1 / 2"
    using nn by simp
  define c where "c = snd b / (h + l + m + 1 / 2)"
  have c: "0 \<le> c" "c \<le> 1"
    using b pos by (simp_all add: c_def)
  have "detect_regime det s =
          (if fst b = current_regime det \<and> regime_persistence s > 0.6
           then (fst b, min 1 (c * 1.1)) else (fst b, c))"
    using pos
    by (simp add: detect_regime_def Let_def score_mixed_def h_def[symmetric] l_def[symmetric]
          m_def[symmetric] b_def[symmetric] c_def del: max_by_key.simps)
  then show ?thesis
    using b c boosted_in_unit_interval[OF c] by (auto split: if_splits)
qed

text \<open>
  C5, as the code has it. For every detector state and every signals input,
  \<open>detect_regime\<close> returns one of the four named regimes (never \<open>UNKNOWN\<close>) and a
  confidence between 0 and 1; when every score but the baseline 0.5 of \<open>MIXED\<close> is zero,
  it returns \<open>MIXED\<close> with confidence 1, the baseline being the whole of the sum.
\<close>

theorem detect_regime_range:
  "fst (detect_regime det s)
     \<in> {HIGH_VOLATILITY_TRENDING, LOW_VOLATILITY_RANGING, MOMENTUM_EXHAUSTION, MIXED} \<and>
   0 \<le> snd (detect_regime det s) \<and> snd (detect_regime det s) \<le> 1 \<and>
   (score_high_vol_trending det s = 0 \<and> score_low_vol_ranging det s = 0 \<and>
    score_momentum_exhaustion det s = 0 \<longrightarrow> detect_regime det s = (MIXED, 1))"
proof -
  have "fst (detect_regime det s)
     \<in> {HIGH_VOLATILITY_TRENDING, LOW_VOLATILITY_RANGING, MOMENTUM_EXHAUSTION, MIXED}"
    using detect_regime_confidence_bounds[of det s]
    by (cases "fst (detect_regime det s)") simp_all
  moreover have "detect_regime det s = (MIXED, 1)"
    if "score_high_vol_trending det s = 0" "score_low_vol_ranging det s = 0"
       "score_momentum_exhaustion det s = 0"
    using that by (simp add: detect_regime_def Let_def score_mixed_def)
  ultimately show ?thesis
    using detect_regime_confidence_bounds[of det s] by blast
qed

lemma ex_quiet_scores:
  "score_high_vol_trending MarketRegimeDetector_init ex_quiet_signals = 0"
  "score_low_vol_ranging MarketRegimeDetector_init ex_quiet_signals = 0"
  "score_momentum_exhaustion MarketRegimeDetector_init ex_quiet_signals = 0"
  by (simp_all add: score_high_vol_trending_def score_low_vol_ranging_def
        score_momentum_exhaustion_def MarketRegimeDetector_init_def ex_quiet_signals_def)

theorem detect_regime_range_witness:
  "score_high_vol_trending MarketRegimeDetector_init ex_quiet_signals = 0 \<and>
   score_low_vol_ranging MarketRegimeDetector_init ex_quiet_signals = 0 \<and>
   score_momentum_exhaustion MarketRegimeDetector_init ex_quiet_signals = 0 \<and>
   detect_regime MarketRegimeDetector_init ex_quiet_signals = (MIXED, 1)"
  using detect_regime_range [of MarketRegimeDetector_init ex_quiet_signals]
  by (simp add: ex_quiet_scores)

text \<open>
  With no condition triggered the confidence is \<open>0.5 / 0.5\<close>, not 0.5: the branch
  \<^verbatim>\<open>else 0.5\<close> of the source needs a sum of scores that is not positive, which the
  baseline excludes.
\<close>

theorem detect_regime_quiet_counterexample:
  "score_high_vol_trending MarketRegimeDetector_init ex_quiet_signals = 0 \<and>
   score_low_vol_ranging MarketRegimeDetector_init ex_quiet_signals = 0 \<and>
   score_momentum_exhaustion MarketRegimeDetector_init ex_quiet_signals = 0 \<and>
   snd (detect_regime MarketRegimeDetector_init ex_quiet_signals) \<noteq> 0.5"
  by (simp add: ex_quiet_scores detect_regime_def Let_def score_mixed_def)

section \<open>Reconciliation with the exchange\<close>

lemma contains_iff_map_of: "dict_contains k d \<longleftrightarrow> map_of d k \<noteq> None"
  by (simp add: map_of_None_iff_not_contains)

text \<open>A symbol that is in the ledger leaves it, whatever the exchange answers.\<close>

lemma reconcile_closed_present:
  assumes "map_of (positions rm) symb = Some p"
  shows "\<exists>rm1. reconcile_closed rm now user_trades symb = Inr rm1 \<and>
               positions rm1 = AList.delete symb (positions rm)"
proof (cases "user_trades symb")
  case (Inl e)
  then show ?thesis using assms by (simp add: reconcile_closed_def)
next
  case (Inr ts)
  show ?thesis
  proof (cases ts)
    case Nil
    then show ?thesis using assms Inr by (simp add: reconcile_closed_def)
  next
    case (Cons t0 ts')
    then show ?thesis
      using assms Inr
      by (auto simp: reconcile_closed_def close_position_def Let_def delete_idem
            split: prod.splits sum.splits if_splits)
  qed
qed

lemma filter_removeAll:
  "filter (\<lambda>k. k \<notin> set ss) (removeAll s ks) = filter (\<lambda>k. k \<notin> set (s # ss)) ks"
  by (induction ks) auto

lemma reconcile_all_removes:
  assumes "distinct ss" and "set ss \<subseteq> fst ` set (positions rm)"
  shows "\<exists>rm1. reconcile_all rm now user_trades ss = (rm1, None) \<and>
               map fst (positions rm1) = filter (\<lambda>k. k \<notin> set ss) (map fst (positions rm))"
  using assms
proof (induction ss arbitrary: rm)
  case Nil
  then show ?case by simp
next
  case (Cons s ss)
  from Cons.prems obtain p where p: "map_of (positions rm) s = Some p"
    by (cases "map_of (positions rm) s") (auto simp: map_of_eq_None_iff)
  from reconcile_closed_present[OF p, of now user_trades]
  obtain rm1 where rm1: "reconcile_closed rm now user_trades s = Inr rm1"
      "positions rm1 = AList.delete s (positions rm)"
    by blast
  have sub: "set ss \<subseteq> fst ` set (positions rm1)"
    using Cons.prems by (auto simp: rm1(2) delete_keys simp flip: set_map)
  from Cons.IH[OF _ sub, of ] Cons.prems(1)
  obtain rm2 where rm2: "reconcile_all rm1 now user_trades ss = (rm2, None)"
      "map fst (positions rm2) = filter (\<lambda>k. k \<notin> set ss) (map fst (positions rm1))"
    by auto
  show ?case
    using rm1 rm2 by (simp add: delete_keys filter_removeAll del: set_simps)
qed

text \<open>Mark prices change neither the keys nor the books.\<close>

lemma update_position_keeps:
  "map fst (positions (update_position rm symb price)) = map fst (positions rm)"
  "trades (update_position rm symb price) = trades rm"
  "current_capital (update_position rm symb price) = current_capital rm"
  "daily_pnl (update_position rm symb price) = daily_pnl rm"
  by (auto simp: update_position_def Let_def update_keys map_of_eq_None_iff image_iff
        split: option.splits dest!: map_of_SomeD)

lemma update_marks_keeps:
  "map fst (positions (fst (update_marks rm ps))) = map fst (positions rm) \<and>
   trades (fst (update_marks rm ps)) = trades rm \<and>
   current_capital (fst (update_marks rm ps)) = current_capital rm \<and>
   daily_pnl (fst (update_marks rm ps)) = daily_pnl rm"
  by (induction rm ps rule: update_marks.induct)
     (simp_all add: update_position_keeps split: option.splits)

text \<open>After one run no key of the ledger is missing from the snapshot.\<close>

lemma check_positions_keys:
  assumes "distinct (map fst (positions rm))"
  shows "map fst (positions (fst (check_positions rm now (Inr aster_positions) user_trades dry_run)))
           = filter (\<lambda>k. k \<in> set (active_on_aster aster_positions)) (map fst (positions rm))"
proof -
  let ?closed = "closed_positions rm aster_positions"
  have d: "distinct ?closed"
    using assms by (simp add: closed_positions_def)
  have s: "set ?closed \<subseteq> fst ` set (positions rm)"
    by (auto simp: closed_positions_def)
  from reconcile_all_removes[OF d s, of now user_trades]
  obtain rm1 where rm1: "reconcile_all rm now user_trades ?closed = (rm1, None)"
      "map fst (positions rm1) = filter (\<lambda>k. k \<notin> set ?closed) (map fst (positions rm))"
    by blast
  have "filter (\<lambda>k. k \<notin> set ?closed) (map fst (positions rm))
          = filter (\<lambda>k. k \<in> set (active_on_aster aster_positions)) (map fst (positions rm))"
    by (intro filter_cong) (auto simp: closed_positions_def)
  then show ?thesis
    using rm1 update_marks_keeps[of rm1 aster_positions]
    by (simp add: check_positions_def Let_def)
qed

lemma check_positions_nothing_closed:
  assumes "closed_positions rm aster_positions = []"
  shows "fst (snd (check_positions rm now (Inr aster_positions) user_trades dry_run)) = [] \<and>
         snd (snd (check_positions rm now (Inr aster_positions) user_trades dry_run)) = [] \<and>
         trades (fst (check_positions rm now (Inr aster_positions) user_trades dry_run))
           = trades rm \<and>
         current_capital (fst (check_positions rm now (Inr aster_positions) user_trades dry_run))
           = current_capital rm \<and>
         daily_pnl (fst (check_positions rm now (Inr aster_positions) user_trades dry_run))
           = daily_pnl rm \<and>
         map fst (positions (fst (check_positions rm now (Inr aster_positions) user_trades dry_run)))
           = map fst (positions rm)"
  using assms update_marks_keeps[of rm aster_positions]
  by (simp add: check_positions_def Let_def)

text \<open>
  C9. Let the ledger be a dictionary (its keys pairwise different). After
  \<open>check_positions\<close> has run once on an exchange snapshot, a second run on the same
  snapshot with the same fill data finds no position to close, sends no cancel request,
  appends no trade, and leaves the capital, the daily PnL and the set of open symbols as
  the first run left them.
\<close>

theorem check_positions_idempotent:
  assumes "distinct (map fst (positions rm))"
  shows "fst (snd (check_positions
                     (fst (check_positions rm now1 position_info user_trades dry_run))
                     now2 position_info user_trades dry_run)) = [] \<and>
         snd (snd (check_positions
                     (fst (check_positions rm now1 position_info user_trades dry_run))
                     now2 position_info user_trades dry_run)) = [] \<and>
         trades (fst (check_positions
                     (fst (check_positions rm now1 position_info user_trades dry_run))
                     now2 position_info user_trades dry_run))
           = trades (fst (check_positions rm now1 position_info user_trades dry_run)) \<and>
         current_capital (fst (check_positions
                     (fst (check_positions rm now1 position_info user_trades dry_run))
                     now2 position_info user_trades dry_run))
           = current_capital (fst (check_positions rm now1 position_info user_trades dry_run)) \<and>
         daily_pnl (fst (check_positions
                     (fst (check_positions rm now1 position_info user_trades dry_run))
                     now2 position_info user_trades dry_run))
           = daily_pnl (fst (check_positions rm now1 position_info user_trades dry_run)) \<and>
         map fst (positions (fst (check_positions
                     (fst (check_positions rm now1 position_info user_trades dry_run))
                     now2 position_info user_trades dry_run)))
           = map fst (positions (fst (check_positions rm now1 position_info user_trades dry_run)))"
proof (cases position_info)
  case (Inl e)
  then show ?thesis by (simp add: check_positions_def)
next
  case (Inr aster_positions)
  let ?rm1 = "fst (check_positions rm now1 (Inr aster_positions) user_trades dry_run)"
  have "closed_positions ?rm1 aster_positions = []"
    by (simp add: closed_positions_def check_positions_keys[OF assms] filter_empty_conv)
  from check_positions_nothing_closed[OF this]
  show ?thesis unfolding Inr by blast
qed

theorem check_positions_idempotent_witness:
  "distinct (map fst (positions ex_rm1)) \<and>
   fst (snd (check_positions ex_rm1 20 (Inr []) ex_user_trades False)) = [''BTCUSDT''] \<and>
   map pnl (trades (fst (check_positions ex_rm1 20 (Inr []) ex_user_trades False))) = [12.5] \<and>
   fst (snd (check_positions (fst (check_positions ex_rm1 20 (Inr []) ex_user_trades False))
               30 (Inr []) ex_user_trades False)) = [] \<and>
   map pnl (trades (fst (check_positions
               (fst (check_positions ex_rm1 20 (Inr []) ex_user_trades False))
               30 (Inr []) ex_user_trades False))) = [12.5]"
proof -
  have first: "fst (snd (check_positions ex_rm1 20 (Inr []) ex_user_trades False)) = [''BTCUSDT'']"
      "map pnl (trades (fst (check_positions ex_rm1 20 (Inr []) ex_user_trades False))) = [12.5]"
    by (simp_all add: check_positions_def closed_positions_def active_on_aster_def
          reconcile_closed_def close_position_def ex_user_trades_def Let_def ex_rm1_eq ex_defs)
  have d: "distinct (map fst (positions ex_rm1))"
    by (simp add: ex_rm1_eq)
  show ?thesis
    using check_positions_idempotent [OF d, of 20 "Inr []" ex_user_trades False 30] first d
    by simp
qed

section \<open>Strategy statistics\<close>

lemma last_n_append1:
  "0 < n \<Longrightarrow> last_n n (last_n n xs @ [x]) = last_n n (xs @ [x])"
  by (auto simp: last_n_def intro!: arg_cong[where f = "\<lambda>k. drop k xs"])

lemma last_n_short: "length xs \<le> n \<Longrightarrow> last_n n xs = xs"
  by (simp add: last_n_def)

lemma last_n_last_n: "m \<le> n \<Longrightarrow> last_n m (last_n n xs) = last_n m xs"
  by (auto simp: last_n_def intro!: arg_cong[where f = "\<lambda>k. drop k xs"])

lemma last_n_nonempty: "0 < n \<Longrightarrow> xs \<noteq> [] \<Longrightarrow> last_n n xs \<noteq> []"
  by (cases xs) (auto simp: last_n_def)

lemma length_last_n: "length (last_n n xs) = min n (length xs)"
  by (auto simp: last_n_def)

lemma wins_plus_losses:
  "int (length (filter snd os)) + int (length (filter (\<lambda>oc. \<not> snd oc) os)) = int (length os)"
  using sum_length_filter_compl[of snd os] by (simp add: comp_def flip: of_nat_add)

lemma stats_of_outcomes_initial: "stats_of_outcomes initial_stats []"
  by (simp add: stats_of_outcomes_def initial_stats_def last_n_def)

lemma stats_of_outcomes_update:
  assumes "stats_of_outcomes st os"
  shows "stats_of_outcomes (update_stats st p w) (os @ [(p, w)])"
proof -
  have "length (last_n 20 os @ [(p, w)]) \<le> 20 \<Longrightarrow>
          last_n 20 os @ [(p, w)] = last_n 20 (os @ [(p, w)])"
    using last_n_short[of "last_n 20 os @ [(p, w)]" 20] last_n_append1[of 20 os "(p, w)"]
    by simp
  then show ?thesis
    using assms last_n_append1[of 20 os "(p, w)"]
    by (cases w) (auto simp: stats_of_outcomes_def update_stats_def Let_def)
qed

lemma set_dict_keys_of: "set (dict_keys_of seen ns) = set ns - set seen"
  by (induction seen ns rule: dict_keys_of.induct) auto

lemma map_of_initial_stats:
  "n \<in> set ks \<Longrightarrow> map_of (map (\<lambda>n. (n, initial_stats)) ks) n = Some initial_stats"
  by (induction ks) auto

lemma select_strategy_keeps:
  "strategy_stats (fst (select_strategy sel market ts)) = strategy_stats sel"
  "regime_weight (fst (select_strategy sel market ts)) = regime_weight sel"
  "performance_weight (fst (select_strategy sel market ts)) = performance_weight sel"
  by (auto simp: select_strategy_def Let_def split: prod.splits sum.splits list.splits)

lemma update_strategy_performance_weights:
  "regime_weight (update_strategy_performance sel n p w) = regime_weight sel"
  "performance_weight (update_strategy_performance sel n p w) = performance_weight sel"
  by (auto simp: update_strategy_performance_def split: option.splits)

lemma outcomes_of_snoc:
  "outcomes_of name (es @ [(n, p, w)]) =
     (if n = name then outcomes_of name es @ [(p, w)] else outcomes_of name es)"
  by (simp add: outcomes_of_def)

text \<open>
  In every selector of a run the weights are 0.7 and 0.3, and the statistics stored for a
  registered strategy are those of the outcomes recorded for it.
\<close>

lemma selector_run_stats:
  assumes "selector_run names es sel" and "name \<in> set names"
  shows "regime_weight sel = 0.7 \<and> performance_weight sel = 0.3 \<and>
         (\<exists>st. map_of (strategy_stats sel) name = Some st \<and>
               stats_of_outcomes st (outcomes_of name es))"
  using assms
proof (induction rule: selector_run.induct)
  case (run_init names)
  then show ?case
    by (simp add: StrategySelector_init_def map_of_initial_stats set_dict_keys_of
          stats_of_outcomes_initial outcomes_of_def)
next
  case (run_record names es sel n p w)
  then obtain st where st: "map_of (strategy_stats sel) name = Some st"
      "stats_of_outcomes st (outcomes_of name es)"
    by blast
  show ?case
  proof (cases "n = name")
    case True
    then show ?thesis
      using run_record st stats_of_outcomes_update[OF st(2), of p w]
      by (simp add: update_strategy_performance_weights outcomes_of_snoc
            update_strategy_performance_def update_conv')
  next
    case False
    then show ?thesis
      using run_record st
      by (auto simp: update_strategy_performance_weights outcomes_of_snoc
            update_strategy_performance_def update_conv' split: option.splits)
  qed
next
  case (run_select names es sel market timestamp)
  then show ?case by (simp add: select_strategy_keeps)
qed

section \<open>The strategy score\<close>

lemma index_of_takeWhile: "index_of x xs = length (takeWhile (\<lambda>y. y \<noteq> x) xs)"
  by (induction xs) auto

lemma index_of_less: "x \<in> set xs \<Longrightarrow> index_of x xs < length xs"
  by (induction xs) auto

lemma length_recommended: "length (get_recommended_strategies det (Some regime)) \<le> 6"
  by (cases regime) (simp_all add: get_recommended_strategies_def)

lemma recommended_detector_free:
  "get_recommended_strategies det (Some regime)
     = get_recommended_strategies MarketRegimeDetector_init (Some regime)"
  by (simp add: get_recommended_strategies_def)

text \<open>The regime part of the score lies between 0 and the confidence.\<close>

lemma spec_regime_score_bounds:
  assumes "0 \<le> conf"
  shows "0 \<le> spec_regime_score name regime conf" "spec_regime_score name regime conf \<le> conf"
proof -
  let ?rec = "get_recommended_strategies MarketRegimeDetector_init (Some regime)"
  let ?k = "length (takeWhile (\<lambda>x. x \<noteq> name) ?rec)"
  have k: "name \<in> set ?rec \<Longrightarrow> real ?k \<le> 5"
    using index_of_less[of name ?rec] length_recommended[of MarketRegimeDetector_init regime]
    by (simp add: index_of_takeWhile)
  have "name \<in> set ?rec \<Longrightarrow> 0 \<le> (1 - 0.2 * real ?k) * conf"
    using k assms by (intro mult_nonneg_nonneg) simp_all
  moreover have "name \<in> set ?rec \<Longrightarrow> (1 - 0.2 * real ?k) * conf \<le> 1 * conf"
    using assms by (intro mult_right_mono) simp_all
  ultimately show "0 \<le> spec_regime_score name regime conf"
    "spec_regime_score name regime conf \<le> conf"
    using assms by (simp_all add: spec_regime_score_def Let_def)
qed

lemma spec_win_rate_le_1: "spec_win_rate os \<le> 1"
proof (cases "os = []")
  case True
  then show ?thesis by (simp add: spec_win_rate_def)
next
  case False
  have "real (length (filter snd os)) \<le> real (length os)"
    by simp
  then show ?thesis
    using False by (simp add: spec_win_rate_def divide_le_eq)
qed

lemma spec_performance_score_le_1: "spec_performance_score os \<le> 1"
  using spec_win_rate_le_1[of "last_n 10 os"]
  by (simp add: spec_performance_score_def min_def)

text \<open>The two parts of the source's score are the ones of the specification.\<close>

lemma performance_score_spec:
  assumes "stats_of_outcomes st os"
  shows "performance_score st = spec_performance_score os"
proof (cases "os = []")
  case True
  then show ?thesis
    using assms by (simp add: performance_score_def spec_performance_score_def
        stats_of_outcomes_def)
next
  case False
  have total: "wins st + losses st = int (length os)"
    using assms wins_plus_losses[of os] by (simp add: stats_of_outcomes_def)
  have recent: "last_n 10 (recent_trades st) = last_n 10 os"
    using assms last_n_last_n[of 10 20 os] by (simp add: stats_of_outcomes_def)
  have ne: "last_n 10 os \<noteq> []"
    using False by (simp add: last_n_nonempty)
  show ?thesis
    using False total recent ne
    by (simp add: performance_score_def spec_performance_score_def Let_def np_mean_def
          spec_win_rate_def spec_average_pnl_def)
qed

lemma regime_score_spec:
  "(if name \<in> set (get_recommended_strategies det (Some regime))
    then 1.0 - (real (index_of name (get_recommended_strategies det (Some regime))) * 0.2)
    else 0.2) * conf
   = spec_regime_score name regime conf"
  by (simp add: spec_regime_score_def Let_def index_of_takeWhile
        recommended_detector_free[of det])

lemma calculate_strategy_score_spec:
  assumes "map_of (strategy_stats sel) name = Some st" and "stats_of_outcomes st os"
  shows "calculate_strategy_score sel name regime conf =
           Inr (if enabled st
                then np_clip (spec_regime_score name regime conf * regime_weight sel
                              + spec_performance_score os * performance_weight sel) 0 1
                else 0)"
  using assms regime_score_spec[of name "regime_detector sel" regime conf]
    performance_score_spec[OF assms(2)]
  by (simp add: calculate_strategy_score_def Let_def)

text \<open>
  C7, as the code has it. For every selector of a run, every registered strategy name,
  every regime and every confidence between 0 and 1, the score is a value between 0 and 1:
  exactly 0 for a disabled strategy, and otherwise
  \<open>0.7 * regimeScore + 0.3 * performanceScore\<close> when that sum is not negative and 0 when it
  is (the sum never exceeds 1), with the regime score and the performance score of the
  specification, the latter taken over the outcomes recorded for the strategy.
\<close>

theorem calculate_strategy_score_formula:
  assumes "selector_run names es sel" and "name \<in> set names"
    and "0 \<le> conf" and "conf \<le> 1"
  shows "\<exists>v st. calculate_strategy_score sel name regime conf = Inr v \<and>
           map_of (strategy_stats sel) name = Some st \<and> 0 \<le> v \<and> v \<le> 1 \<and>
           v = (if enabled st
                then max 0 (0.7 * spec_regime_score name regime conf
                            + 0.3 * spec_performance_score (outcomes_of name es))
                else 0)"
proof -
  from selector_run_stats[OF assms(1,2)]
  obtain st where w: "regime_weight sel = 0.7" "performance_weight sel = 0.3"
    and st: "map_of (strategy_stats sel) name = Some st"
      "stats_of_outcomes st (outcomes_of name es)"
    by blast
  define f where "f = 0.7 * spec_regime_score name regime conf
                      + 0.3 * spec_performance_score (outcomes_of name es)"
  have "f \<le> 1"
    using spec_regime_score_bounds(2)[OF assms(3), of name regime] assms(4)
      spec_performance_score_le_1[of "outcomes_of name es"]
    by (simp add: f_def)
  then have clip: "np_clip f 0 1 = max 0 f"
    by (simp add: np_clip_def max_def min_def)
  have "calculate_strategy_score sel name regime conf =
          Inr (if enabled st then np_clip f 0 1 else 0)"
    unfolding calculate_strategy_score_spec[OF st] w f_def by (simp add: mult.commute)
  then have "calculate_strategy_score sel name regime conf =
          Inr (if enabled st then max 0 f else 0)"
    by (simp only: clip)
  then show ?thesis
    using st(1) \<open>f \<le> 1\<close> by (auto simp: f_def)
qed

lemma ex_sel_loss_stats:
  "map_of (strategy_stats ex_sel_loss) ''Market Making'' =
     Some \<lparr>wins = 0, losses = 1, total_pnl = - 1000, recent_trades = [(- 1000, False)],
           win_rate = 0, avg_pnl = - 1000, enabled = True\<rparr>"
  by (simp add: ex_sel_loss_def update_strategy_performance_def StrategySelector_init_def
        update_stats_def initial_stats_def Let_def)

lemma selector_run_ex_sel_loss:
  "selector_run [''Market Making''] [(''Market Making'', - 1000, False)] ex_sel_loss"
  unfolding ex_sel_loss_def
  using run_record[OF run_init, of "[''Market Making'']" "''Market Making''" "- 1000" False]
  by simp

lemma ex_sel_loss_weights:
  "regime_weight ex_sel_loss = 0.7" "performance_weight ex_sel_loss = 0.3"
  by (simp_all add: ex_sel_loss_def update_strategy_performance_weights
        StrategySelector_init_def)

lemma ex_sel_loss_scores:
  "calculate_strategy_score ex_sel_loss ''Market Making'' LOW_VOLATILITY_RANGING 0.5 = Inr 0"
  "calculate_strategy_score ex_sel_loss ''Market Making'' HIGH_VOLATILITY_TRENDING 1 = Inr 0"
  by (simp_all add: calculate_strategy_score_def ex_sel_loss_stats ex_sel_loss_weights Let_def
        performance_score_def np_clip_def np_mean_def last_n_def
        get_recommended_strategies_def)

theorem calculate_strategy_score_formula_witness:
  "selector_run [''Market Making''] [(''Market Making'', - 1000, False)] ex_sel_loss \<and>
   ''Market Making'' \<in> set [''Market Making''] \<and> (0::real) \<le> 0.5 \<and> (0.5::real) \<le> 1 \<and>
   calculate_strategy_score ex_sel_loss ''Market Making'' LOW_VOLATILITY_RANGING 0.5 = Inr 0"
proof -
  have h0: "''Market Making'' \<in> set [''Market Making'']" by simp
  have h1: "(0::real) \<le> 0.5" and h2: "(0.5::real) \<le> 1" by simp_all
  from calculate_strategy_score_formula [OF selector_run_ex_sel_loss h0 h1 h2,
      of LOW_VOLATILITY_RANGING]
  obtain v st where v:
      "calculate_strategy_score ex_sel_loss ''Market Making'' LOW_VOLATILITY_RANGING 0.5 = Inr v"
      "map_of (strategy_stats ex_sel_loss) ''Market Making'' = Some st"
      "v = (if enabled st
            then max 0 (0.7 * spec_regime_score ''Market Making'' LOW_VOLATILITY_RANGING 0.5
                        + 0.3 * spec_performance_score (outcomes_of ''Market Making''
                            [(''Market Making'', - 1000, False)]))
            else 0)"
    by blast
  have "v = 0"
    using v(2,3)
    by (simp add: ex_sel_loss_stats get_recommended_strategies_def spec_regime_score_def
          spec_performance_score_def spec_win_rate_def spec_average_pnl_def outcomes_of_def
          last_n_def)
  then show ?thesis
    using v(1) selector_run_ex_sel_loss h0 h1 h2 by simp
qed

text \<open>
  After one loss of 1000 the weighted sum is \<open>0.7 * 0.5 + 0.3 * (- 10) = - 2.65\<close>; the
  score returned is 0, the sum clipped by \<^verbatim>\<open>np.clip\<close>.
\<close>

theorem calculate_strategy_score_clip_counterexample:
  "calculate_strategy_score ex_sel_loss ''Market Making'' LOW_VOLATILITY_RANGING 0.5 = Inr 0 \<and>
   0.7 * spec_regime_score ''Market Making'' LOW_VOLATILITY_RANGING 0.5
     + 0.3 * spec_performance_score (outcomes_of ''Market Making''
         [(''Market Making'', - 1000, False)]) = - 2.65"
  using ex_sel_loss_scores(1)
  by (simp add: get_recommended_strategies_def spec_regime_score_def
        spec_performance_score_def spec_win_rate_def spec_average_pnl_def outcomes_of_def
        last_n_def)

section \<open>Disabling and re-enabling a strategy\<close>

text \<open>
  The hysteresis of \<open>update_strategy_performance\<close>, read off the statistics it stores:
  with at least ten outcomes recorded, a win rate below 0.35 disables the strategy and a
  win rate above 0.45 enables it; in every other case the flag stays as it was.
\<close>

lemma update_stats_win_rate:
  "0 < wins (update_stats st p w) + losses (update_stats st p w) \<Longrightarrow>
   win_rate (update_stats st p w)
     = real_of_int (wins (update_stats st p w))
       / real_of_int (wins (update_stats st p w) + losses (update_stats st p w))"
  by (cases w) (auto simp: update_stats_def Let_def)

lemma update_stats_disables:
  "10 \<le> wins (update_stats st p w) + losses (update_stats st p w) \<Longrightarrow>
   win_rate (update_stats st p w) < 0.35 \<Longrightarrow> \<not> enabled (update_stats st p w)"
  by (cases w) (auto simp: update_stats_def Let_def split: if_splits)

lemma update_stats_enables:
  "10 \<le> wins (update_stats st p w) + losses (update_stats st p w) \<Longrightarrow>
   win_rate (update_stats st p w) > 0.45 \<Longrightarrow> enabled (update_stats st p w)"
  by (cases w) (auto simp: update_stats_def Let_def split: if_splits)

lemma update_stats_stays_disabled:
  "\<not> enabled st \<Longrightarrow>
   \<not> (10 \<le> wins (update_stats st p w) + losses (update_stats st p w) \<and>
      win_rate (update_stats st p w) > 0.45) \<Longrightarrow>
   \<not> enabled (update_stats st p w)"
  by (cases w) (auto simp: update_stats_def Let_def split: if_splits)

lemma disabled_scores_zero:
  "map_of (strategy_stats sel) name = Some st \<Longrightarrow> \<not> enabled st \<Longrightarrow>
   calculate_strategy_score sel name regime conf = Inr 0"
  by (simp add: calculate_strategy_score_def Let_def)

lemma ex_sel_disabled_stats:
  "strategies ex_sel_disabled = [''Market Making'']"
  "strategy_stats ex_sel_disabled =
     [(''Market Making'',
       \<lparr>wins = 0, losses = 10, total_pnl = - 10,
        recent_trades = [(- 1, False), (- 1, False), (- 1, False), (- 1, False), (- 1, False),
                         (- 1, False), (- 1, False), (- 1, False), (- 1, False), (- 1, False)],
        win_rate = 0, avg_pnl = - 1, enabled = False\<rparr>)]"
  by (simp_all add: ex_sel_disabled_def update_strategy_performance_def
        StrategySelector_init_def update_stats_def initial_stats_def Let_def)

text \<open>
  C8, at a failing input. One strategy is registered and ten losses are recorded for it:
  its win rate is 0, it is disabled and its score is forced to 0. \<open>select_strategy\<close>
  takes the maximum over all scores and returns this strategy, with score 0, whatever
  the market data.
\<close>

theorem select_strategy_returns_disabled:
  "map (enabled \<circ> snd) (strategy_stats ex_sel_disabled) = [False] \<and>
   calculate_strategy_score ex_sel_disabled ''Market Making'' regime conf = Inr 0 \<and>
   snd (select_strategy ex_sel_disabled market timestamp) = Inr (Some (''Market Making'', 0))"
proof -
  have score: "calculate_strategy_score (ex_sel_disabled\<lparr>regime_detector := det\<rparr>)
                 ''Market Making'' r c = Inr 0" for det r c
    by (rule disabled_scores_zero[where st = "snd (hd (strategy_stats ex_sel_disabled))"])
       (simp_all add: ex_sel_disabled_stats)
  have "snd (select_strategy ex_sel_disabled market timestamp)
          = Inr (Some (''Market Making'', 0))"
    by (simp add: select_strategy_def Let_def score ex_sel_disabled_stats(1)
          split: prod.splits)
  moreover have "calculate_strategy_score ex_sel_disabled ''Market Making'' regime conf = Inr 0"
    using score[of "regime_detector ex_sel_disabled" regime conf] by simp
  ultimately show ?thesis
    by (simp add: ex_sel_disabled_stats)
qed

end
